theory Spec2Isabelle
  imports
    Complex_Main
    "HOL-Library.Multiset"
    "HOL-Library.Char_ord"
    "HOL-Library.List_Lexorder"
    "HOL-Library.Option_ord"
    "HOL-Library.Sublist"
begin

section \<open>Common values\<close>

text \<open>
  Exceptions of the Python code are values.  \<open>RedisError\<close> is any fault raised by the
  cache client, \<open>BackendError\<close> any fault raised by a database driver on
  \<^verbatim>\<open>cursor.execute\<close>, \<open>ValueError\<close> carries the message of the
  \<^verbatim>\<open>raise ValueError(...)\<close> statements of the adapters and of the standard
  library, \<open>HTTPException\<close> the status code of the routers'
  \<^verbatim>\<open>raise HTTPException(status_code=...)\<close>.  \<open>JSONDecodeError\<close> and
  \<open>RecursionError\<close> come from \<^verbatim>\<open>json.loads\<close>, \<open>ZeroDivisionError\<close> and
  \<open>OverflowError\<close> from the division of two ints.
\<close>

datatype error =
    RedisError
  | JSONDecodeError
  | BackendError
  | ValueError string
  | ZeroDivisionError
  | OverflowError
  | RecursionError
  | HTTPException nat

text \<open>The values \<^verbatim>\<open>json.loads\<close> produces; \<open>JNull\<close> is Python's \<^verbatim>\<open>None\<close>.\<close>

datatype json =
    JNull
  | JBool bool
  | JNum int
  | JStr string
  | JArr "json list"
  | JObj "(string \<times> json) list"

text \<open>Python truthiness, as used by \<^verbatim>\<open>if value:\<close> and \<^verbatim>\<open>if not x:\<close>.\<close>

fun truthy :: "json \<Rightarrow> bool" where
  "truthy JNull = False"
| "truthy (JBool b) = b"
| "truthy (JNum n) = (n \<noteq> 0)"
| "truthy (JStr s) = (s \<noteq> [])"
| "truthy (JArr xs) = (xs \<noteq> [])"
| "truthy (JObj kvs) = (kvs \<noteq> [])"

text \<open>\<^verbatim>\<open>str(n)\<close> for a Python int, as an f-string interpolates it.\<close>

fun digit_char :: "nat \<Rightarrow> char" where
  "digit_char n = ''0123456789'' ! (n mod 10)"

function str_nat :: "nat \<Rightarrow> string" where
  "str_nat n = (if n < 10 then [digit_char n] else str_nat (n div 10) @ [digit_char n])"
  by pat_completeness auto
termination
  by (relation "measure id") auto

definition str_int :: "int \<Rightarrow> string" where
  "str_int i = (if i < 0 then CHR ''-'' # str_nat (nat (- i)) else str_nat (nat i))"

section \<open>The cache store (redis\_caches.py)\<close>

text \<open>
  The Redis server behind \<^verbatim>\<open>redis_client\<close>: the stored keys with their payloads
  (\<^verbatim>\<open>decode_responses=True\<close>, so payloads are strings), and a schedule of faults.
  Every call of the client consumes the head of the schedule and raises when it is
  \<open>True\<close>; an exhausted schedule means no further fault.  Expiry needs a clock and is
  not modelled: \<^verbatim>\<open>setex\<close> stores the payload and drops the TTL.
\<close>

record redis =
  store :: "(string \<times> string) list"
  faults :: "bool list"

definition next_fault :: "bool list \<Rightarrow> bool" where
  "next_fault fs = (case fs of [] \<Rightarrow> False | f # _ \<Rightarrow> f)"

definition tick :: "redis \<Rightarrow> redis" where
  "tick r = r\<lparr>faults := tl (faults r)\<rparr>"

subsection \<open>Glob patterns of the KEYS command\<close>

text \<open>
  \<^verbatim>\<open>redis_client.keys(pattern)\<close> matches keys against a glob pattern: \<^verbatim>\<open>*\<close> any
  run of characters, \<^verbatim>\<open>?\<close> one character, \<^verbatim>\<open>[...]\<close> a character class (with
  \<^verbatim>\<open>^\<close> negation, \<^verbatim>\<open>a-z\<close> ranges and backslash escapes), a backslash escapes
  the next character, everything else matches itself.
\<close>

text \<open>
  \<open>class_match cs c\<close> reads a character class body (the text after the opening
  bracket) and returns whether \<open>c\<close> is in it, with the pattern left after the closing
  bracket.  A class that is not closed extends to the end of the pattern.
\<close>

fun class_match :: "string \<Rightarrow> char \<Rightarrow> bool \<times> string" where
  "class_match [] c = (False, [])"
| "class_match (p # ps) c =
     (if p = CHR 0x5C \<and> ps \<noteq> [] then
        (let (m, rest) = class_match (tl ps) c in (hd ps = c \<or> m, rest))
      else if p = CHR '']'' then (False, ps)
      else (case ps of
              d # e # qs \<Rightarrow>
                if d = CHR ''-'' then
                  (let lo = min p e; hi = max p e; (m, rest) = class_match qs c
                   in ((lo \<le> c \<and> c \<le> hi) \<or> m, rest))
                else (let (m, rest) = class_match ps c in (p = c \<or> m, rest))
            | _ \<Rightarrow> (let (m, rest) = class_match ps c in (p = c \<or> m, rest))))"

lemma class_match_length: "length (snd (class_match ps c)) \<le> length ps"
proof (induction "length ps" arbitrary: ps rule: less_induct)
  case less
  show ?case
  proof (cases ps)
    case Nil
    then show ?thesis by simp
  next
    case (Cons p qs)
    have ih: "length (snd (class_match r c)) \<le> length r" if "length r \<le> length qs" for r
      using less [of r] that Cons by simp
    have a: "length (snd (class_match (tl qs) c)) \<le> length qs"
      using ih [of "tl qs"] by simp
    have b: "length (snd (class_match qs c)) \<le> length qs"
      using ih [of qs] by simp
    have d: "length (snd (class_match rs c)) \<le> Suc (Suc (length rs))" if "qs = x # y # rs" for x y rs
      using ih [of rs] that by simp
    show ?thesis
      unfolding Cons class_match.simps(2) [of p qs c]
      using a b d
      by (simp only: split_beta Let_def snd_conv list.size split: if_split list.split)
         (auto simp del: class_match.simps intro: le_SucI)
  qed
qed

function glob_match :: "string \<Rightarrow> string \<Rightarrow> bool" where
  "glob_match [] s = (s = [])"
| "glob_match (p # ps) s =
     (if p = CHR ''*'' then
        glob_match ps s \<or> (case s of [] \<Rightarrow> False | _ # t \<Rightarrow> glob_match (p # ps) t)
      else
        (case s of
           [] \<Rightarrow> False
         | c # t \<Rightarrow>
             if p = CHR ''?'' then glob_match ps t
             else if p = CHR ''['' then
               (let neg = (ps \<noteq> [] \<and> hd ps = CHR ''^'');
                    body = (if neg then tl ps else ps)
                in (fst (class_match body c) \<noteq> neg) \<and> glob_match (snd (class_match body c)) t)
             else if p = CHR 0x5C \<and> ps \<noteq> [] then hd ps = c \<and> glob_match (tl ps) t
             else p = c \<and> glob_match ps t))"
  by pat_completeness auto
termination
proof (relation "measure (\<lambda>(p, s). length p + length s)", goal_cases)
  case 1
  show ?case by simp
next
  case (2 p ps s)
  show ?case by simp
next
  case (3 p ps s x21 x22)
  then show ?case by simp
next
  case (4 p ps s x21 x22)
  then show ?case by simp
next
  case (5 p ps s x21 x22 x xa)
  have "length (snd (class_match xa x21)) \<le> length xa"
    by (rule class_match_length)
  moreover have "length xa \<le> length ps"
    using 5 by (auto simp: Let_def)
  ultimately show ?case using 5 by simp
next
  case (6 p ps s x21 x22)
  then show ?case by (cases ps) simp_all
next
  case (7 p ps s x21 x22)
  then show ?case by simp
qed

subsection \<open>Client calls\<close>

text \<open>
  \<^verbatim>\<open>redis_client.get\<close>, \<^verbatim>\<open>.setex\<close>, \<^verbatim>\<open>.keys\<close> and \<^verbatim>\<open>.delete\<close>.  Each either
  raises (when the schedule says so, leaving the store as it was) or acts on the
  store.  \<^verbatim>\<open>delete\<close> returns the number of keys it removed.
\<close>

definition redis_get :: "string \<Rightarrow> redis \<Rightarrow> (error + string option) \<times> redis" where
  "redis_get key r =
     (if next_fault (faults r) then (Inl RedisError, tick r)
      else (Inr (map_of (store r) key), tick r))"

definition redis_setex :: "string \<Rightarrow> int \<Rightarrow> string \<Rightarrow> redis \<Rightarrow> (error + unit) \<times> redis" where
  "redis_setex key expire payload r =
     (if next_fault (faults r) then (Inl RedisError, tick r)
      else (Inr (),
            tick (r\<lparr>store := (key, payload) # filter (\<lambda>kv. fst kv \<noteq> key) (store r)\<rparr>)))"

definition redis_keys :: "string \<Rightarrow> redis \<Rightarrow> (error + string list) \<times> redis" where
  "redis_keys pattern r =
     (if next_fault (faults r) then (Inl RedisError, tick r)
      else (Inr (filter (glob_match pattern) (remdups (map fst (store r)))), tick r))"

definition redis_delete :: "string list \<Rightarrow> redis \<Rightarrow> (error + nat) \<times> redis" where
  "redis_delete keys r =
     (if next_fault (faults r) then (Inl RedisError, tick r)
      else (Inr (length (filter (\<lambda>k. k \<in> fst ` set (store r)) (remdups keys))),
            tick (r\<lparr>store := filter (\<lambda>kv. fst kv \<notin> set keys) (store r)\<rparr>)))"

subsection \<open>get\_cache and set\_cache\<close>

text \<open>
  \<open>get_cache_body\<close> is the \<^verbatim>\<open>try\<close> block of \<^verbatim>\<open>get_cache\<close>, \<open>get_cache\<close> adds the
  two \<^verbatim>\<open>except\<close> clauses, which both return \<^verbatim>\<open>None\<close>.  The decoder
  \<^verbatim>\<open>json.loads\<close> is the parameter \<open>loads\<close>; it returns the exception where Python
  raises one.  Only a \<^verbatim>\<open>JSONDecodeError\<close> is caught by the inner handler, which
  deletes the key; any other exception of the decoder (\<^verbatim>\<open>RecursionError\<close> on deep
  nesting, a plain \<^verbatim>\<open>ValueError\<close> on an over-long integer) leaves the inner
  \<^verbatim>\<open>try\<close> and reaches the outer handlers with the key in place.  The
  \<^verbatim>\<open>delete\<close> in the inner handler runs inside the outer \<^verbatim>\<open>try\<close> as well, so a
  fault there reaches the outer handlers too.
\<close>

definition get_cache_body ::
  "(string \<Rightarrow> error + json) \<Rightarrow> string \<Rightarrow> redis \<Rightarrow> (error + json) \<times> redis" where
  "get_cache_body loads key r =
     (case redis_get key r of
        (Inl e, r1) \<Rightarrow> (Inl e, r1)
      | (Inr value, r1) \<Rightarrow>
          (case value of
             None \<Rightarrow> (Inr JNull, r1)
           | Some v \<Rightarrow>
               if v \<noteq> [] then
                 (case loads v of
                    Inr j \<Rightarrow> (Inr j, r1)
                  | Inl json_error \<Rightarrow>
                      if json_error = JSONDecodeError then
                        (case redis_delete [key] r1 of
                           (Inl e, r2) \<Rightarrow> (Inl e, r2)
                         | (Inr _, r2) \<Rightarrow> (Inr JNull, r2))
                      else (Inl json_error, r1))
               else (Inr JNull, r1)))"

definition get_cache ::
  "(string \<Rightarrow> error + json) \<Rightarrow> string \<Rightarrow> redis \<Rightarrow> (error + json) \<times> redis" where
  "get_cache loads key r =
     (case get_cache_body loads key r of
        (Inl e, r') \<Rightarrow> (Inr JNull, r')
      | (Inr j, r') \<Rightarrow> (Inr j, r'))"

text \<open>
  \<^verbatim>\<open>set_cache\<close>: a dict or list is stored as \<^verbatim>\<open>json.dumps(value, default=str)\<close>
  (the parameter \<open>dumps\<close>), anything else as \<^verbatim>\<open>str(value)\<close> (the parameter
  \<open>str_of\<close>); any exception gives \<^verbatim>\<open>False\<close>.
\<close>

fun is_dict_or_list :: "json \<Rightarrow> bool" where
  "is_dict_or_list (JArr _) = True"
| "is_dict_or_list (JObj _) = True"
| "is_dict_or_list _ = False"

definition set_cache ::
  "(json \<Rightarrow> string) \<Rightarrow> (json \<Rightarrow> string) \<Rightarrow> string \<Rightarrow> json \<Rightarrow> int \<Rightarrow> redis
     \<Rightarrow> (error + bool) \<times> redis" where
  "set_cache dumps str_of key val expire r =
     (case redis_setex key expire (if is_dict_or_list val then dumps val else str_of val) r of
        (Inl e, r') \<Rightarrow> (Inr False, r')
      | (Inr _, r') \<Rightarrow> (Inr True, r'))"

subsection \<open>Keys of the column-selection entries\<close>

text \<open>
  \<^verbatim>\<open>hash(tuple(sorted(columns)))\<close>: Python's \<^verbatim>\<open>hash\<close> on a tuple of strings is
  the parameter \<open>py_hash\<close>, a function of the tuple's value within one interpreter
  process.  \<^verbatim>\<open>sorted\<close> orders strings lexicographically by code point, which is
  the order of \<open>char list\<close>.
\<close>

definition selected_key ::
  "(string list \<Rightarrow> int) \<Rightarrow> string \<Rightarrow> string \<Rightarrow> string list \<Rightarrow> int \<Rightarrow> int \<Rightarrow> string" where
  "selected_key py_hash session_id table_name columns page page_size =
     (let columns_hash = py_hash (sort columns)
      in session_id @ '':table:'' @ table_name @ '':selected:'' @ str_int columns_hash
           @ '':page:'' @ str_int page @ '':size:'' @ str_int page_size)"

definition cache_selected_columns_records ::
  "(string list \<Rightarrow> int) \<Rightarrow> (json \<Rightarrow> string) \<Rightarrow> (json \<Rightarrow> string) \<Rightarrow> string \<Rightarrow> string
     \<Rightarrow> string list \<Rightarrow> int \<Rightarrow> int \<Rightarrow> json \<Rightarrow> redis \<Rightarrow> (error + bool) \<times> redis" where
  "cache_selected_columns_records py_hash dumps str_of session_id table_name columns page
       page_size records_data r =
     set_cache dumps str_of
       (selected_key py_hash session_id table_name columns page page_size) records_data 1800 r"

definition get_cached_selected_columns_records ::
  "(string list \<Rightarrow> int) \<Rightarrow> (string \<Rightarrow> error + json) \<Rightarrow> string \<Rightarrow> string \<Rightarrow> string list
     \<Rightarrow> int \<Rightarrow> int \<Rightarrow> redis \<Rightarrow> (error + json) \<times> redis" where
  "get_cached_selected_columns_records py_hash loads session_id table_name columns page
       page_size r =
     get_cache loads (selected_key py_hash session_id table_name columns page page_size) r"

text \<open>
  A decoder for the examples.  It reads the JSON literals \<^verbatim>\<open>null\<close>, \<^verbatim>\<open>true\<close>
  and \<^verbatim>\<open>false\<close>, the numbers \<^verbatim>\<open>3\<close> and \<^verbatim>\<open>7\<close> and one object, and refuses a
  run of more than 4300 digits \<^verbatim>\<open>1\<close> with the \<^verbatim>\<open>ValueError\<close> of Python's integer
  conversion limit, as \<^verbatim>\<open>json.loads\<close> does.  Every other input is rejected with
  \<^verbatim>\<open>JSONDecodeError\<close>; the examples use two of them, the empty string and the text
  \<^verbatim>\<open>{bad\<close>, which \<^verbatim>\<open>json.loads\<close> rejects in this way.
\<close>

definition loads_literal :: "string \<Rightarrow> error + json" where
  "loads_literal s =
     (if 4300 < length s \<and> set s \<subseteq> {CHR ''1''}
      then Inl (ValueError ''Exceeds the limit (4300 digits) for integer string conversion'')
      else if s = ''null'' then Inr JNull
      else if s = ''true'' then Inr (JBool True)
      else if s = ''false'' then Inr (JBool False)
      else if s = ''3'' then Inr (JNum 3)
      else if s = ''7'' then Inr (JNum 7)
      else if s = ''{\"db_type\": \"mysql\"}'' then Inr (JObj [(''db_type'', JStr ''mysql'')])
      else Inl JSONDecodeError)"

text \<open>A serializer for the examples: the decimal digits of a number.\<close>

fun dumps_number :: "json \<Rightarrow> string" where
  "dumps_number (JNum n) = str_int n"
| "dumps_number _ = ''null''"

text \<open>A hash for the examples: the number of names in the tuple.\<close>

definition hash_length :: "string list \<Rightarrow> int" where
  "hash_length xs = int (length xs)"

subsection \<open>Table-scoped invalidation\<close>


definition table_patterns :: "string \<Rightarrow> string \<Rightarrow> string list" where
  "table_patterns session_id table_name =
     [session_id @ '':table:'' @ table_name @ '':*'',
      session_id @ '':table:'' @ table_name @ '':records:*'',
      session_id @ '':table:'' @ table_name @ '':selected:*'',
      session_id @ '':table:'' @ table_name @ '':count'',
      session_id @ '':table:'' @ table_name @ '':columns'']"

text \<open>
  The \<^verbatim>\<open>for pattern in patterns\<close> loop of \<^verbatim>\<open>invalidate_table_cache\<close> with its
  running total; an exception of the client leaves the loop.
\<close>

fun invalidate_loop :: "string list \<Rightarrow> nat \<Rightarrow> redis \<Rightarrow> (error + nat) \<times> redis" where
  "invalidate_loop [] total_cleared r = (Inr total_cleared, r)"
| "invalidate_loop (pattern # patterns) total_cleared r =
     (case redis_keys pattern r of
        (Inl e, r1) \<Rightarrow> (Inl e, r1)
      | (Inr keys, r1) \<Rightarrow>
          if keys \<noteq> [] then
            (case redis_delete keys r1 of
               (Inl e, r2) \<Rightarrow> (Inl e, r2)
             | (Inr deleted, r2) \<Rightarrow> invalidate_loop patterns (total_cleared + deleted) r2)
          else invalidate_loop patterns total_cleared r1)"

text \<open>The \<^verbatim>\<open>except Exception\<close> clause logs the fault and returns 0.\<close>

definition invalidate_table_cache :: "string \<Rightarrow> string \<Rightarrow> redis \<Rightarrow> (error + nat) \<times> redis" where
  "invalidate_table_cache session_id table_name r =
     (case invalidate_loop (table_patterns session_id table_name) 0 r of
        (Inl e, r') \<Rightarrow> (Inr 0, r')
      | (Inr total_cleared, r') \<Rightarrow> (Inr total_cleared, r'))"

section \<open>Write handlers (routers/tables.py)\<close>

definition get_connection_info ::
  "(string \<Rightarrow> error + json) \<Rightarrow> string \<Rightarrow> redis \<Rightarrow> (error + json) \<times> redis" where
  "get_connection_info loads session_id r = get_cache loads (''connection:'' @ session_id) r"

text \<open>
  \<^verbatim>\<open>with get_db_connection(session_id) as db: ...\<close> (db/database.py).  The session's
  connection parameters come from the cache; a missing entry raises 401.  What follows
  (choice of the adapter class, \<^verbatim>\<open>connect\<close>, the body of the \<^verbatim>\<open>with\<close> block and
  \<^verbatim>\<open>close\<close>) is the parameter \<open>use\<close>: the handlers are generic in the adapter, and
  \<open>use info\<close> is the outcome of the adapter call for these connection parameters, an
  exception (among them the 500 of a failed \<^verbatim>\<open>connect\<close>) or the returned value.
\<close>

definition get_db_connection ::
  "(string \<Rightarrow> error + json) \<Rightarrow> string \<Rightarrow> (json \<Rightarrow> error + 'a) \<Rightarrow> redis
     \<Rightarrow> (error + 'a) \<times> redis" where
  "get_db_connection loads session_id use r =
     (case get_connection_info loads session_id r of
        (Inl e, r1) \<Rightarrow> (Inl e, r1)
      | (Inr connection_info, r1) \<Rightarrow>
          if \<not> truthy connection_info then (Inl (HTTPException 401), r1)
          else (use connection_info, r1))"

text \<open>
  What \<^verbatim>\<open>create_record\<close> returns (\<^verbatim>\<open>Union[int, str, None]\<close>), with the truth value
  \<^verbatim>\<open>if record_id:\<close> tests and the \<^verbatim>\<open>str(record_id)\<close> of the response.
\<close>

datatype record_id = NoId | IntId int | StrId string

fun truthy_id :: "record_id \<Rightarrow> bool" where
  "truthy_id NoId = False"
| "truthy_id (IntId n) = (n \<noteq> 0)"
| "truthy_id (StrId s) = (s \<noteq> [])"

fun str_id :: "record_id \<Rightarrow> string" where
  "str_id NoId = ''None''"
| "str_id (IntId n) = str_int n"
| "str_id (StrId s) = s"

text \<open>
  The responses of the write handlers: the HTTP status, the \<^verbatim>\<open>success\<close> flag and
  the \<^verbatim>\<open>record_id\<close> and \<^verbatim>\<open>deleted_count\<close> fields where the response has them.
  The \<^verbatim>\<open>message\<close> texts are left out.
\<close>

record response =
  status_code :: nat
  success :: bool
  new_record_id :: "string option"
  deleted_count :: "int option"

definition session_cookie :: "string option \<Rightarrow> error + string" where
  "session_cookie cookie =
     (case cookie of
        None \<Rightarrow> Inl (HTTPException 401)
      | Some session_id \<Rightarrow> if session_id = [] then Inl (HTTPException 401) else Inr session_id)"

definition create_table_record ::
  "(string \<Rightarrow> error + json) \<Rightarrow> (json \<Rightarrow> error + record_id) \<Rightarrow> string option \<Rightarrow> string
     \<Rightarrow> redis \<Rightarrow> (error + response) \<times> redis" where
  "create_table_record loads db_create_record cookie table_name r =
     (case session_cookie cookie of
        Inl e \<Rightarrow> (Inl e, r)
      | Inr session_id \<Rightarrow>
          (case get_db_connection loads session_id db_create_record r of
             (Inl e, r1) \<Rightarrow>
               (Inr \<lparr>status_code = 500, success = False, new_record_id = None,
                     deleted_count = None\<rparr>, r1)
           | (Inr rid, r1) \<Rightarrow>
               if truthy_id rid then
                 (case invalidate_table_cache session_id table_name r1 of
                    (Inl e, r2) \<Rightarrow>
                      (Inr \<lparr>status_code = 500, success = False, new_record_id = None,
                            deleted_count = None\<rparr>, r2)
                  | (Inr _, r2) \<Rightarrow>
                      (Inr \<lparr>status_code = 200, success = True, new_record_id = Some (str_id rid),
                            deleted_count = None\<rparr>, r2))
               else
                 (Inr \<lparr>status_code = 200, success = False, new_record_id = None,
                       deleted_count = None\<rparr>, r1)))"

definition update_table_record ::
  "(string \<Rightarrow> error + json) \<Rightarrow> (json \<Rightarrow> error + bool) \<Rightarrow> string option \<Rightarrow> string
     \<Rightarrow> redis \<Rightarrow> (error + response) \<times> redis" where
  "update_table_record loads db_update_record cookie table_name r =
     (case session_cookie cookie of
        Inl e \<Rightarrow> (Inl e, r)
      | Inr session_id \<Rightarrow>
          (case get_db_connection loads session_id db_update_record r of
             (Inl e, r1) \<Rightarrow>
               (Inr \<lparr>status_code = 500, success = False, new_record_id = None,
                     deleted_count = None\<rparr>, r1)
           | (Inr ok, r1) \<Rightarrow>
               if ok then
                 (case invalidate_table_cache session_id table_name r1 of
                    (Inl e, r2) \<Rightarrow>
                      (Inr \<lparr>status_code = 500, success = False, new_record_id = None,
                            deleted_count = None\<rparr>, r2)
                  | (Inr _, r2) \<Rightarrow>
                      (Inr \<lparr>status_code = 200, success = True, new_record_id = None,
                            deleted_count = None\<rparr>, r2))
               else
                 (Inr \<lparr>status_code = 200, success = False, new_record_id = None,
                       deleted_count = None\<rparr>, r1)))"

definition delete_single_record ::
  "(string \<Rightarrow> error + json) \<Rightarrow> (json \<Rightarrow> error + bool) \<Rightarrow> string option \<Rightarrow> string
     \<Rightarrow> redis \<Rightarrow> (error + response) \<times> redis" where
  "delete_single_record loads db_delete_record cookie table_name r =
     (case session_cookie cookie of
        Inl e \<Rightarrow> (Inl e, r)
      | Inr session_id \<Rightarrow>
          (case get_db_connection loads session_id db_delete_record r of
             (Inl e, r1) \<Rightarrow>
               (Inr \<lparr>status_code = 500, success = False, new_record_id = None,
                     deleted_count = None\<rparr>, r1)
           | (Inr ok, r1) \<Rightarrow>
               if ok then
                 (case invalidate_table_cache session_id table_name r1 of
                    (Inl e, r2) \<Rightarrow>
                      (Inr \<lparr>status_code = 500, success = False, new_record_id = None,
                            deleted_count = None\<rparr>, r2)
                  | (Inr _, r2) \<Rightarrow>
                      (Inr \<lparr>status_code = 200, success = True, new_record_id = None,
                            deleted_count = Some 1\<rparr>, r2))
               else
                 (Inr \<lparr>status_code = 200, success = False, new_record_id = None,
                       deleted_count = None\<rparr>, r1)))"

text \<open>
  \<^verbatim>\<open>bulk_delete_records\<close>.  \<open>body\<close> is the outcome of \<^verbatim>\<open>await request.json()\<close>
  followed by \<^verbatim>\<open>body.get("record_ids", [])\<close>; the adapter call (the adapter's own
  \<^verbatim>\<open>bulk_delete_records\<close> or the loop over \<^verbatim>\<open>delete_record\<close>) returns the number
  of deleted records.  The cache is invalidated only when that number is positive, and
  the response reports success in both cases.  The \<^verbatim>\<open>except\<close> clause answers with a
  plain dictionary.
\<close>

definition bulk_delete_records ::
  "(string \<Rightarrow> error + json) \<Rightarrow> (json \<Rightarrow> error + int) \<Rightarrow> string option \<Rightarrow> string
     \<Rightarrow> error + int list \<Rightarrow> redis \<Rightarrow> (error + response) \<times> redis" where
  "bulk_delete_records loads db_bulk_delete cookie table_name body r =
     (case session_cookie cookie of
        Inl e \<Rightarrow> (Inl e, r)
      | Inr session_id \<Rightarrow>
          (case body of
             Inl e \<Rightarrow>
               (Inr \<lparr>status_code = 200, success = False, new_record_id = None,
                     deleted_count = Some 0\<rparr>, r)
           | Inr record_ids \<Rightarrow>
               if record_ids = [] then
                 (Inr \<lparr>status_code = 200, success = False, new_record_id = None,
                       deleted_count = Some 0\<rparr>, r)
               else
                 (case get_db_connection loads session_id db_bulk_delete r of
                    (Inl e, r1) \<Rightarrow>
                      (Inr \<lparr>status_code = 200, success = False, new_record_id = None,
                            deleted_count = Some 0\<rparr>, r1)
                  | (Inr n_deleted, r1) \<Rightarrow>
                      (case (if n_deleted > 0
                             then invalidate_table_cache session_id table_name r1
                             else (Inr 0, r1)) of
                         (Inl e, r2) \<Rightarrow>
                           (Inr \<lparr>status_code = 200, success = False, new_record_id = None,
                                 deleted_count = Some 0\<rparr>, r2)
                       | (Inr _, r2) \<Rightarrow>
                           (Inr \<lparr>status_code = 200, success = True, new_record_id = None,
                                 deleted_count = Some n_deleted\<rparr>, r2)))))"

section \<open>A read handler (routers/tables.py)\<close>

definition get_cached_table_count ::
  "(string \<Rightarrow> error + json) \<Rightarrow> string \<Rightarrow> string \<Rightarrow> redis \<Rightarrow> (error + json) \<times> redis" where
  "get_cached_table_count loads session_id table_name r =
     get_cache loads (session_id @ '':table:'' @ table_name @ '':count'') r"

definition cache_table_count ::
  "(json \<Rightarrow> string) \<Rightarrow> (json \<Rightarrow> string) \<Rightarrow> string \<Rightarrow> string \<Rightarrow> int \<Rightarrow> redis
     \<Rightarrow> (error + bool) \<times> redis" where
  "cache_table_count dumps str_of session_id table_name n r =
     set_cache dumps str_of (session_id @ '':table:'' @ table_name @ '':count'') (JNum n) 1800 r"

text \<open>
  \<^verbatim>\<open>get_table_count\<close>: the cached count when there is one, else the adapter's count,
  which is written to the cache.  The handler has no \<^verbatim>\<open>try\<close>: the 401 of
  \<^verbatim>\<open>get_db_connection\<close> reaches the caller.
\<close>

record count_response =
  count_table :: string
  count_value :: json

definition get_table_count ::
  "(string \<Rightarrow> error + json) \<Rightarrow> (json \<Rightarrow> string) \<Rightarrow> (json \<Rightarrow> string) \<Rightarrow> (json \<Rightarrow> error + int)
     \<Rightarrow> string option \<Rightarrow> string \<Rightarrow> redis \<Rightarrow> (error + count_response) \<times> redis" where
  "get_table_count loads dumps str_of db_get_table_record_count cookie table_name r =
     (case session_cookie cookie of
        Inl e \<Rightarrow> (Inl e, r)
      | Inr session_id \<Rightarrow>
          (case get_cached_table_count loads session_id table_name r of
             (Inl e, r1) \<Rightarrow> (Inl e, r1)
           | (Inr cached_count, r1) \<Rightarrow>
               if cached_count \<noteq> JNull then
                 (Inr \<lparr>count_table = table_name, count_value = cached_count\<rparr>, r1)
               else
                 (case get_db_connection loads session_id db_get_table_record_count r1 of
                    (Inl e, r2) \<Rightarrow> (Inl e, r2)
                  | (Inr n, r2) \<Rightarrow>
                      (case cache_table_count dumps str_of session_id table_name n r2 of
                         (Inl e, r3) \<Rightarrow> (Inl e, r3)
                       | (Inr _, r3) \<Rightarrow>
                           (Inr \<lparr>count_table = table_name, count_value = JNum n\<rparr>, r3)))))"

text \<open>
  Names without an opening bracket and without a backslash.  Interpolated into a
  pattern that ends in \<^verbatim>\<open>*\<close> such a name still matches every key that starts with
  it: a \<^verbatim>\<open>*\<close> or \<^verbatim>\<open>?\<close> in the name matches itself among other things, while a
  bracket opens a character class and a backslash escapes the next character.
\<close>

definition class_free :: "string \<Rightarrow> bool" where
  "class_free s = (\<forall>c \<in> set s. c \<noteq> CHR ''['' \<and> c \<noteq> CHR 0x5C)"

text \<open>
  Adapter calls for the examples, for any session: one that reports a row changed, one
  that deletes nothing, one that deletes two records and one that counts 3 rows.
\<close>

definition adapter_reports_true :: "json \<Rightarrow> error + bool" where
  "adapter_reports_true connection_info = Inr True"

definition adapter_deletes_none :: "json \<Rightarrow> error + int" where
  "adapter_deletes_none connection_info = Inr 0"


definition adapter_counts_three :: "json \<Rightarrow> error + int" where
  "adapter_counts_three connection_info = Inr 3"


text \<open>An adapter call for the examples that returns the generated id 7.\<close>

definition adapter_returns_id :: "json \<Rightarrow> error + record_id" where
  "adapter_returns_id connection_info = Inr (IntId 7)"

text \<open>
  A store for the examples: the connection entry of session \<^verbatim>\<open>s1\<close> and the cached
  counts of two of its tables.
\<close>

definition example_store :: "(string \<times> string) list" where
  "example_store =
     [(''connection:s1'', ''{\"db_type\": \"mysql\"}''),
      (''s1:table:users:count'', ''3''),
      (''s1:table:orders:count'', ''7'')]"

section \<open>Relational backends (db/dbDriver)\<close>

text \<open>
  The database behind a driver connection.  A table has its columns in ordinal
  position, its primary-key columns, its auto-increment counter (0 when it has none)
  and its rows in the order an unordered scan returns them.  A row maps column names to
  cells; cell values are integers, \<open>None\<close> is SQL \<^verbatim>\<open>NULL\<close>.  Record ids and new
  values arrive at the drivers as such cell values.
\<close>

type_synonym row = "(string \<times> int option) list"

record table =
  tbl_columns :: "string list"
  tbl_primary_key :: "string list"
  tbl_next_id :: int
  tbl_rows :: "row list"

text \<open>A bound statement parameter: a name or a cell value.\<close>

datatype param = PStr string | PVal "int option"

text \<open>
  \<^verbatim>\<open>self.conn\<close>: the schema name, the tables, the major number of SQL Server's
  \<^verbatim>\<open>ProductVersion\<close> (\<open>None\<close> when the probe's answer does not parse), a schedule of
  faults as for the cache client (each \<^verbatim>\<open>cursor.execute\<close> consumes one entry and
  raises when it is \<open>True\<close>), and the log of the statements sent: text and bound
  parameters.  Statement texts are written with runs of white space collapsed.
  \<^verbatim>\<open>commit\<close> and \<^verbatim>\<open>rollback\<close> do not fault; a statement that raises changes
  nothing, so a rollback after it leaves the tables as they are.
\<close>

record conn =
  conn_database :: string
  conn_tables :: "(string \<times> table) list"
  conn_version :: "int option"
  conn_faults :: "bool list"
  conn_log :: "(string \<times> param list) list"

definition execute ::
  "string \<Rightarrow> param list \<Rightarrow> (conn \<Rightarrow> (error + 'a) \<times> (string \<times> table) list) \<Rightarrow> conn
     \<Rightarrow> (error + 'a) \<times> conn" where
  "execute sql params sem c =
     (let c1 = c\<lparr>conn_faults := tl (conn_faults c), conn_log := conn_log c @ [(sql, params)]\<rparr>
      in if next_fault (conn_faults c) then (Inl BackendError, c1)
         else (fst (sem c), c1\<lparr>conn_tables := snd (sem c)\<rparr>))"

text \<open>A statement that only reads.\<close>

definition query :: "(conn \<Rightarrow> error + 'a) \<Rightarrow> conn \<Rightarrow> (error + 'a) \<times> (string \<times> table) list" where
  "query f c = (f c, conn_tables c)"

text \<open>A statement on a table the database does not have is an SQL error.\<close>

definition with_table :: "conn \<Rightarrow> string \<Rightarrow> (table \<Rightarrow> error + 'a) \<Rightarrow> error + 'a" where
  "with_table c table_name f =
     (case map_of (conn_tables c) table_name of
        None \<Rightarrow> Inl BackendError
      | Some tb \<Rightarrow> f tb)"

definition cell :: "row \<Rightarrow> string \<Rightarrow> int option" where
  "cell r col = (case map_of r col of None \<Rightarrow> None | Some v \<Rightarrow> v)"

text \<open>
  The rows a dictionary cursor returns for a column list; the empty list stands for
  \<^verbatim>\<open>*\<close>.
\<close>

definition project :: "string list \<Rightarrow> row \<Rightarrow> row" where
  "project cols r = (if cols = [] then r else map (\<lambda>col. (col, cell r col)) (remdups cols))"

subsection \<open>What the statements return\<close>

text \<open>\<^verbatim>\<open>SELECT COUNT(1) FROM INFORMATION_SCHEMA.TABLES WHERE TABLE_NAME = ...\<close>\<close>

definition catalog_table_count :: "string \<Rightarrow> conn \<Rightarrow> error + int" where
  "catalog_table_count table_name c =
     Inr (case map_of (conn_tables c) table_name of None \<Rightarrow> 0 | Some tb \<Rightarrow> 1)"

text \<open>\<^verbatim>\<open>SELECT COUNT(1) FROM INFORMATION_SCHEMA.COLUMNS WHERE TABLE_NAME = ... AND COLUMN_NAME = ...\<close>\<close>

definition catalog_column_count :: "string \<Rightarrow> string \<Rightarrow> conn \<Rightarrow> error + int" where
  "catalog_column_count table_name col c =
     Inr (case map_of (conn_tables c) table_name of
            None \<Rightarrow> 0
          | Some tb \<Rightarrow> if col \<in> set (tbl_columns tb) then 1 else 0)"

text \<open>The first primary-key column the catalog lists for the table, if any.\<close>

definition catalog_primary_key :: "string \<Rightarrow> conn \<Rightarrow> error + string option" where
  "catalog_primary_key table_name c =
     Inr (case map_of (conn_tables c) table_name of
            None \<Rightarrow> None
          | Some tb \<Rightarrow> (case tbl_primary_key tb of [] \<Rightarrow> None | k # _ \<Rightarrow> Some k))"

text \<open>The first column the catalog lists for the table, if any.\<close>

definition catalog_first_column :: "string \<Rightarrow> conn \<Rightarrow> error + string option" where
  "catalog_first_column table_name c =
     Inr (case map_of (conn_tables c) table_name of
            None \<Rightarrow> None
          | Some tb \<Rightarrow> (case tbl_columns tb of [] \<Rightarrow> None | k # _ \<Rightarrow> Some k))"

text \<open>\<^verbatim>\<open>SHOW COLUMNS FROM t\<close> (MySQL): an error for an unknown table.\<close>

definition show_first_column :: "string \<Rightarrow> conn \<Rightarrow> error + string option" where
  "show_first_column table_name c =
     with_table c table_name
       (\<lambda>tb. Inr (case tbl_columns tb of [] \<Rightarrow> None | k # _ \<Rightarrow> Some k))"

text \<open>\<^verbatim>\<open>SELECT COUNT(*) FROM t\<close>\<close>

definition count_rows :: "string \<Rightarrow> conn \<Rightarrow> error + int" where
  "count_rows table_name c = with_table c table_name (\<lambda>tb. Inr (int (length (tbl_rows tb))))"

text \<open>
  \<^verbatim>\<open>SELECT cols FROM t LIMIT n OFFSET o\<close> (MySQL) and
  \<^verbatim>\<open>SELECT cols FROM t ORDER BY (SELECT NULL) OFFSET o ROWS FETCH NEXT n ROWS ONLY\<close>
  (SQL Server): the rows in scan order from position \<open>o\<close>, at most \<open>n\<close> of them.  A
  negative offset or count is an error, and so is a zero count for \<^verbatim>\<open>FETCH NEXT\<close>.
\<close>

definition select_limit_offset ::
  "string list \<Rightarrow> string \<Rightarrow> int \<Rightarrow> int \<Rightarrow> conn \<Rightarrow> error + row list" where
  "select_limit_offset cols table_name n ofs c =
     with_table c table_name
       (\<lambda>tb. if n < 0 \<or> ofs < 0 then Inl BackendError
             else Inr (map (project cols) (take (nat n) (drop (nat ofs) (tbl_rows tb)))))"

definition select_offset_fetch ::
  "string list \<Rightarrow> string \<Rightarrow> int \<Rightarrow> int \<Rightarrow> conn \<Rightarrow> error + row list" where
  "select_offset_fetch cols table_name ofs n c =
     with_table c table_name
       (\<lambda>tb. if n \<le> 0 \<or> ofs < 0 then Inl BackendError
             else Inr (map (project cols) (take (nat n) (drop (nat ofs) (tbl_rows tb)))))"

text \<open>
  The \<^verbatim>\<open>ROW_NUMBER()\<close> statement: the rows are numbered from 1 in scan order and
  those numbered from \<open>lo\<close> to \<open>hi\<close> are kept.  The outer \<^verbatim>\<open>SELECT\<close> repeats the
  column list of the inner one, so with \<^verbatim>\<open>*\<close> it also returns the column
  \<^verbatim>\<open>RowNum\<close>.
\<close>

definition numbered :: "row list \<Rightarrow> (int \<times> row) list" where
  "numbered rs = zip (map int [1 ..< Suc (length rs)]) rs"

definition select_row_number ::
  "string list \<Rightarrow> string \<Rightarrow> int \<Rightarrow> int \<Rightarrow> conn \<Rightarrow> error + row list" where
  "select_row_number cols table_name lo hi c =
     with_table c table_name
       (\<lambda>tb. Inr (map (\<lambda>(i, r). if cols = [] then r @ [(''RowNum'', Some i)] else project cols r)
                   (filter (\<lambda>(i, r). lo \<le> i \<and> i \<le> hi) (numbered (tbl_rows tb)))))"

text \<open>\<^verbatim>\<open>SELECT TOP n cols FROM t\<close>: the first \<open>n\<close> rows in scan order.\<close>

definition select_top :: "string list \<Rightarrow> string \<Rightarrow> int \<Rightarrow> conn \<Rightarrow> error + row list" where
  "select_top cols table_name n c =
     with_table c table_name
       (\<lambda>tb. if n < 0 then Inl BackendError
             else Inr (map (project cols) (take (nat n) (tbl_rows tb))))"

text \<open>
  \<^verbatim>\<open>SELECT TOP n cols FROM t WHERE [oc] NOT IN (SELECT TOP m [oc] FROM t ORDER BY [oc])
  ORDER BY [oc]\<close>.  An unknown ordering column is an error.  \<^verbatim>\<open>NULL\<close> sorts first.
  \<^verbatim>\<open>x NOT IN (...)\<close> holds for every \<open>x\<close> when the list is empty; otherwise it is
  not true when \<open>x\<close> or a member of the list is \<^verbatim>\<open>NULL\<close>.
\<close>

definition not_in :: "int option \<Rightarrow> int option list \<Rightarrow> bool" where
  "not_in x excluded =
     (excluded = [] \<or> (x \<noteq> None \<and> None \<notin> set excluded \<and> x \<notin> set excluded))"

definition select_top_not_in ::
  "string list \<Rightarrow> string \<Rightarrow> string \<Rightarrow> int \<Rightarrow> int \<Rightarrow> conn \<Rightarrow> error + row list" where
  "select_top_not_in cols table_name oc n m c =
     with_table c table_name
       (\<lambda>tb. if oc \<notin> set (tbl_columns tb) \<or> n < 0 \<or> m < 0 then Inl BackendError
             else
               (let excluded = take (nat m) (sort (map (\<lambda>r. cell r oc) (tbl_rows tb)));
                    kept = filter (\<lambda>r. not_in (cell r oc) excluded) (tbl_rows tb)
                in Inr (map (project cols) (take (nat n) (sort_key (\<lambda>r. cell r oc) kept)))))"

text \<open>
  \<^verbatim>\<open>UPDATE t SET col = v WHERE pk = id\<close> and \<^verbatim>\<open>DELETE FROM t WHERE pk = id\<close>:
  the result is \<^verbatim>\<open>cursor.rowcount\<close>, the number of rows the \<^verbatim>\<open>WHERE\<close> clause
  selects.
\<close>

definition set_cell :: "string \<Rightarrow> int option \<Rightarrow> row \<Rightarrow> row" where
  "set_cell col v r = map (\<lambda>(k, old). if k = col then (k, v) else (k, old)) r"

definition replace_table :: "string \<Rightarrow> table \<Rightarrow> (string \<times> table) list \<Rightarrow> (string \<times> table) list" where
  "replace_table table_name tb tbs = map (\<lambda>(k, old). if k = table_name then (k, tb) else (k, old)) tbs"

definition sql_update ::
  "string \<Rightarrow> string \<Rightarrow> int option \<Rightarrow> string \<Rightarrow> int \<Rightarrow> conn
     \<Rightarrow> (error + int) \<times> (string \<times> table) list" where
  "sql_update table_name col v pk rid c =
     (case map_of (conn_tables c) table_name of
        None \<Rightarrow> (Inl BackendError, conn_tables c)
      | Some tb \<Rightarrow>
          if col \<notin> set (tbl_columns tb) \<or> pk \<notin> set (tbl_columns tb)
          then (Inl BackendError, conn_tables c)
          else
            (Inr (int (length (filter (\<lambda>r. cell r pk = Some rid) (tbl_rows tb)))),
             replace_table table_name
               (tb\<lparr>tbl_rows := map (\<lambda>r. if cell r pk = Some rid then set_cell col v r else r)
                                  (tbl_rows tb)\<rparr>)
               (conn_tables c)))"

definition sql_delete ::
  "string \<Rightarrow> string \<Rightarrow> int \<Rightarrow> conn \<Rightarrow> (error + int) \<times> (string \<times> table) list" where
  "sql_delete table_name pk rid c =
     (case map_of (conn_tables c) table_name of
        None \<Rightarrow> (Inl BackendError, conn_tables c)
      | Some tb \<Rightarrow>
          if pk \<notin> set (tbl_columns tb) then (Inl BackendError, conn_tables c)
          else
            (Inr (int (length (filter (\<lambda>r. cell r pk = Some rid) (tbl_rows tb)))),
             replace_table table_name
               (tb\<lparr>tbl_rows := filter (\<lambda>r. cell r pk \<noteq> Some rid) (tbl_rows tb)\<rparr>)
               (conn_tables c)))"

text \<open>
  \<^verbatim>\<open>INSERT INTO t (cols) VALUES (...)\<close>: an error for an unknown table or column.
  The new row takes the given cells, the table's counter in its first primary-key column
  when the table has a counter and the column is not given, and \<^verbatim>\<open>NULL\<close> elsewhere.
  The result is \<^verbatim>\<open>cursor.lastrowid\<close>: the counter's value, 0 without a counter.
\<close>

definition new_row :: "table \<Rightarrow> (string \<times> int option) list \<Rightarrow> row" where
  "new_row tb given =
     map (\<lambda>col. (col,
            (case map_of given col of
               Some v \<Rightarrow> v
             | None \<Rightarrow>
                 if tbl_next_id tb \<noteq> 0 \<and> tbl_primary_key tb \<noteq> [] \<and> col = hd (tbl_primary_key tb)
                 then Some (tbl_next_id tb) else None)))
       (tbl_columns tb)"

definition sql_insert ::
  "string \<Rightarrow> (string \<times> int option) list \<Rightarrow> conn \<Rightarrow> (error + int) \<times> (string \<times> table) list" where
  "sql_insert table_name given c =
     (case map_of (conn_tables c) table_name of
        None \<Rightarrow> (Inl BackendError, conn_tables c)
      | Some tb \<Rightarrow>
          if \<not> set (map fst given) \<subseteq> set (tbl_columns tb) then (Inl BackendError, conn_tables c)
          else
            (Inr (tbl_next_id tb),
             replace_table table_name
               (tb\<lparr>tbl_rows := tbl_rows tb @ [new_row tb given],
                   tbl_next_id := (if tbl_next_id tb = 0 then 0 else tbl_next_id tb + 1)\<rparr>)
               (conn_tables c)))"

subsection \<open>Shared Python helpers\<close>

text \<open>\<^verbatim>\<open>sep.join(xs)\<close>\<close>

fun join :: "string \<Rightarrow> string list \<Rightarrow> string" where
  "join sep [] = []"
| "join sep [x] = x"
| "join sep (x # y # ys) = x @ sep @ join sep (y # ys)"

definition quoted :: "string \<Rightarrow> string" where
  "quoted s = [CHR 0x27] @ s @ [CHR 0x27]"

text \<open>
  \<^verbatim>\<open>math.ceil(total_count / page_size)\<close>.  Python divides two ints into a float,
  the double nearest to the exact quotient with ties going to the even mantissa, and
  \<^verbatim>\<open>math.ceil\<close> rounds that float up to an int.  The division raises
  \<^verbatim>\<open>ZeroDivisionError\<close> for a zero divisor and \<^verbatim>\<open>OverflowError\<close> when the
  quotient is too large for a float.
\<close>

text \<open>\<^verbatim>\<open>int.bit_length\<close>: the number of binary digits.\<close>

function bit_length :: "nat \<Rightarrow> nat" where
  "bit_length n = (if n = 0 then 0 else Suc (bit_length (n div 2)))"
  by pat_completeness auto
termination
  by (relation "measure id") auto

declare bit_length.simps [simp del]

text \<open>The integer nearest to \<open>num / den\<close>, ties to even.\<close>

definition round_half_even :: "nat \<Rightarrow> nat \<Rightarrow> nat" where
  "round_half_even num den =
     (let q = num div den; r = num mod den
      in if den < 2 * r \<or> (2 * r = den \<and> odd q) then q + 1 else q)"

text \<open>
  The double nearest to \<open>a / b\<close> for \<open>b > 0\<close>, as mantissa \<open>m\<close> and exponent
  \<open>e\<close> with value \<open>m * 2\<^sup>e\<close>.  With \<open>d\<close> the difference of the bit lengths the
  quotient lies between \<open>2\<^sup>d\<^sup>-\<^sup>1\<close> and \<open>2\<^sup>d\<^sup>+\<^sup>1\<close>, so its binary exponent
  \<open>e0\<close> is \<open>d\<close> or \<open>d - 1\<close>; a double has 53 mantissa bits and no exponent below
  -1074.
\<close>

definition nearest_double :: "nat \<Rightarrow> nat \<Rightarrow> nat \<times> int" where
  "nearest_double a b =
     (if a = 0 then (0, 0)
      else
        (let d = int (bit_length a) - int (bit_length b);
             e0 = (if b * 2 ^ nat d \<le> a * 2 ^ nat (- d) then d else d - 1);
             e = max (e0 - 52) (- 1074)
         in (round_half_even (a * 2 ^ nat (- e)) (b * 2 ^ nat e), e)))"

definition py_ceil_div :: "int \<Rightarrow> int \<Rightarrow> error + int" where
  "py_ceil_div total_count page_size =
     (if page_size = 0 then Inl ZeroDivisionError
      else
        (case nearest_double (nat \<bar>total_count\<bar>) (nat \<bar>page_size\<bar>) of
           (m, e) \<Rightarrow>
             if 0 \<le> e \<and> 2 ^ 1024 \<le> m * 2 ^ nat e then Inl OverflowError
             else if (total_count < 0) \<noteq> (page_size < 0)
             then Inr (- (if 0 \<le> e then int m * 2 ^ nat e else int m div 2 ^ nat (- e)))
             else Inr (if 0 \<le> e then int m * 2 ^ nat e
                       else - ((- int m) div 2 ^ nat (- e)))))"

text \<open>The dictionary \<^verbatim>\<open>get_paginated_records\<close> returns.\<close>

record page_result =
  records :: "row list"
  total_count :: int
  total_pages :: int

definition empty_page :: page_result where
  "empty_page = \<lparr>records = [], total_count = 0, total_pages = 0\<rparr>"

text \<open>\<^verbatim>\<open>if columns:\<close> for the optional column list.\<close>

definition columns_given :: "string list option \<Rightarrow> bool" where
  "columns_given cols = (case cols of None \<Rightarrow> False | Some cs \<Rightarrow> cs \<noteq> [])"

subsection \<open>MySQL adapter (mysqlConnector.py)\<close>

definition mysql_validate_table_exists :: "string \<Rightarrow> conn \<Rightarrow> (error + bool) \<times> conn" where
  "mysql_validate_table_exists table_name c =
     (case execute
             ''SELECT COUNT(1) FROM INFORMATION_SCHEMA.TABLES WHERE TABLE_SCHEMA = %s AND TABLE_NAME = %s''
             [PStr (conn_database c), PStr table_name]
             (query (catalog_table_count table_name)) c of
        (Inl e, c1) \<Rightarrow> (Inl e, c1)
      | (Inr n, c1) \<Rightarrow>
          (let exists = (n > 0)
           in if \<not> exists
              then (Inl (ValueError (''Table '' @ quoted table_name @ '' not found'')), c1)
              else (Inr exists, c1)))"

fun mysql_validate_columns :: "string \<Rightarrow> string list \<Rightarrow> conn \<Rightarrow> (error + string list) \<times> conn" where
  "mysql_validate_columns table_name [] c = (Inr [], c)"
| "mysql_validate_columns table_name (col # cols) c =
     (case execute
             ''SELECT COUNT(1) FROM INFORMATION_SCHEMA.COLUMNS WHERE TABLE_SCHEMA = %s AND TABLE_NAME = %s AND COLUMN_NAME = %s''
             [PStr (conn_database c), PStr table_name, PStr col]
             (query (catalog_column_count table_name col)) c of
        (Inl e, c1) \<Rightarrow> (Inl e, c1)
      | (Inr n, c1) \<Rightarrow>
          (case mysql_validate_columns table_name cols c1 of
             (Inl e, c2) \<Rightarrow> (Inl e, c2)
           | (Inr valid_columns, c2) \<Rightarrow>
               (Inr (if n > 0 then col # valid_columns else valid_columns), c2)))"

text \<open>
  \<^verbatim>\<open>_get_primary_key_or_first_column\<close>: the body of the \<^verbatim>\<open>try\<close>, then the
  function with its \<^verbatim>\<open>except\<close> clause, which returns \<^verbatim>\<open>"id"\<close>.
\<close>

definition mysql_primary_key_body :: "string \<Rightarrow> conn \<Rightarrow> (error + string) \<times> conn" where
  "mysql_primary_key_body table_name c =
     (case execute
             ''SELECT COLUMN_NAME FROM INFORMATION_SCHEMA.COLUMNS WHERE TABLE_SCHEMA = %s AND TABLE_NAME = %s AND COLUMN_KEY = 'PRI' LIMIT 1''
             [PStr (conn_database c), PStr table_name]
             (query (catalog_primary_key table_name)) c of
        (Inl e, c1) \<Rightarrow> (Inl e, c1)
      | (Inr (Some k), c1) \<Rightarrow> (Inr k, c1)
      | (Inr None, c1) \<Rightarrow>
          (case execute (''SHOW COLUMNS FROM `'' @ table_name @ ''`'') []
                  (query (show_first_column table_name)) c1 of
             (Inl e, c2) \<Rightarrow> (Inl e, c2)
           | (Inr (Some k), c2) \<Rightarrow> (Inr k, c2)
           | (Inr None, c2) \<Rightarrow> (Inr ''id'', c2)))"

definition mysql_get_primary_key_or_first_column :: "string \<Rightarrow> conn \<Rightarrow> string \<times> conn" where
  "mysql_get_primary_key_or_first_column table_name c =
     (case mysql_primary_key_body table_name c of
        (Inl e, c') \<Rightarrow> (''id'', c')
      | (Inr k, c') \<Rightarrow> (k, c'))"

definition mysql_record_count_body :: "string \<Rightarrow> conn \<Rightarrow> (error + int) \<times> conn" where
  "mysql_record_count_body table_name c =
     (case mysql_validate_table_exists table_name c of
        (Inl e, c1) \<Rightarrow> (Inl e, c1)
      | (Inr _, c1) \<Rightarrow>
          execute (''SELECT COUNT(*) FROM `'' @ table_name @ ''`'') []
            (query (count_rows table_name)) c1)"

definition mysql_get_table_record_count ::
  "conn option \<Rightarrow> string \<Rightarrow> (error + int) \<times> conn option" where
  "mysql_get_table_record_count self_conn table_name =
     (case self_conn of
        None \<Rightarrow> (Inr 0, None)
      | Some c \<Rightarrow>
          (case mysql_record_count_body table_name c of
             (Inl e, c') \<Rightarrow> (Inr 0, Some c')
           | (Inr n, c') \<Rightarrow> (Inr n, Some c')))"

definition mysql_columns_sql :: "string list \<Rightarrow> string" where
  "mysql_columns_sql valid_columns =
     (if valid_columns \<noteq> [] then join '', '' (map (\<lambda>col. ''`'' @ col @ ''`'') valid_columns)
      else ''*'')"

definition mysql_paginated_body ::
  "string \<Rightarrow> int \<Rightarrow> int \<Rightarrow> string list option \<Rightarrow> conn \<Rightarrow> (error + page_result) \<times> conn" where
  "mysql_paginated_body table_name page page_size cols c =
     (case mysql_validate_table_exists table_name c of
        (Inl e, c1) \<Rightarrow> (Inl e, c1)
      | (Inr _, c1) \<Rightarrow>
          (case execute (''SELECT COUNT(*) FROM `'' @ table_name @ ''`'') []
                  (query (count_rows table_name)) c1 of
             (Inl e, c2) \<Rightarrow> (Inl e, c2)
           | (Inr cnt, c2) \<Rightarrow>
               (case py_ceil_div cnt page_size of
                  Inl e \<Rightarrow> (Inl e, c2)
                | Inr pages \<Rightarrow>
                    (case (if columns_given cols then mysql_validate_columns table_name (the cols) c2
                           else (Inr [], c2)) of
                       (Inl e, c3) \<Rightarrow> (Inl e, c3)
                     | (Inr valid_columns, c3) \<Rightarrow>
                         (let offset = (page - 1) * page_size
                          in case execute
                                    (''SELECT '' @ mysql_columns_sql valid_columns @ '' FROM `''
                                       @ table_name @ ''` LIMIT %s OFFSET %s'')
                                    [PVal (Some page_size), PVal (Some offset)]
                                    (query (select_limit_offset valid_columns table_name
                                              page_size offset)) c3 of
                               (Inl e, c4) \<Rightarrow> (Inl e, c4)
                             | (Inr recs, c4) \<Rightarrow>
                                 (Inr \<lparr>records = recs, total_count = cnt,
                                       total_pages = pages\<rparr>, c4))))))"

definition mysql_get_paginated_records ::
  "conn option \<Rightarrow> string \<Rightarrow> int \<Rightarrow> int \<Rightarrow> string list option
     \<Rightarrow> (error + page_result) \<times> conn option" where
  "mysql_get_paginated_records self_conn table_name page page_size cols =
     (case self_conn of
        None \<Rightarrow> (Inr empty_page, None)
      | Some c \<Rightarrow>
          (case mysql_paginated_body table_name page page_size cols c of
             (Inl e, c') \<Rightarrow> (Inr empty_page, Some c')
           | (Inr res, c') \<Rightarrow> (Inr res, Some c')))"

text \<open>\<^verbatim>\<open>delete_record\<close>: any exception is answered with \<^verbatim>\<open>False\<close>.\<close>

definition mysql_delete_body :: "string \<Rightarrow> int \<Rightarrow> conn \<Rightarrow> (error + bool) \<times> conn" where
  "mysql_delete_body table_name rid c =
     (case mysql_validate_table_exists table_name c of
        (Inl e, c1) \<Rightarrow> (Inl e, c1)
      | (Inr _, c1) \<Rightarrow>
          (case mysql_get_primary_key_or_first_column table_name c1 of
             (primary_key, c2) \<Rightarrow>
               (case execute
                       (''DELETE FROM `'' @ table_name @ ''` WHERE `'' @ primary_key @ ''` = %s'')
                       [PVal (Some rid)]
                       (sql_delete table_name primary_key rid) c2 of
                  (Inl e, c3) \<Rightarrow> (Inl e, c3)
                | (Inr rows_affected, c3) \<Rightarrow>
                    if rows_affected > 0 then (Inr True, c3) else (Inr False, c3))))"

definition mysql_delete_record ::
  "conn option \<Rightarrow> string \<Rightarrow> int \<Rightarrow> (error + bool) \<times> conn option" where
  "mysql_delete_record self_conn table_name rid =
     (case self_conn of
        None \<Rightarrow> (Inr False, None)
      | Some c \<Rightarrow>
          (case mysql_delete_body table_name rid c of
             (Inl e, c') \<Rightarrow> (Inr False, Some c')
           | (Inr ok, c') \<Rightarrow> (Inr ok, Some c')))"

text \<open>
  \<^verbatim>\<open>create_record\<close>: the data is filtered for \<^verbatim>\<open>None\<close> values (an empty string
  is no cell value here), the statement is built from the table name and the remaining
  keys, and executed.  No catalog lookup precedes it.  Any exception gives \<^verbatim>\<open>None\<close>.
\<close>

definition mysql_create_body ::
  "string \<Rightarrow> (string \<times> int option) list \<Rightarrow> conn \<Rightarrow> (error + record_id) \<times> conn" where
  "mysql_create_body table_name data c =
     (let filtered_data = filter (\<lambda>(k, v). v \<noteq> None) data
      in if filtered_data = [] then (Inr NoId, c)
         else
           (let cols = map fst filtered_data;
                placeholders = join '', '' (map (\<lambda>_. ''%s'') cols);
                column_names = join '', '' (map (\<lambda>col. ''`'' @ col @ ''`'') cols)
            in case execute
                      (''INSERT INTO `'' @ table_name @ ''` ('' @ column_names @ '') VALUES (''
                         @ placeholders @ '')'')
                      (map (\<lambda>(k, v). PVal v) filtered_data)
                      (sql_insert table_name filtered_data) c of
                 (Inl e, c1) \<Rightarrow> (Inl e, c1)
               | (Inr lastrowid, c1) \<Rightarrow> (Inr (IntId lastrowid), c1)))"

definition mysql_create_record ::
  "conn option \<Rightarrow> string \<Rightarrow> (string \<times> int option) list \<Rightarrow> (error + record_id) \<times> conn option" where
  "mysql_create_record self_conn table_name data =
     (case self_conn of
        None \<Rightarrow> (Inr NoId, None)
      | Some c \<Rightarrow>
          (case mysql_create_body table_name data c of
             (Inl e, c') \<Rightarrow> (Inr NoId, Some c')
           | (Inr rid, c') \<Rightarrow> (Inr rid, Some c')))"

subsection \<open>SQL Server adapter (mssqlConnector.py)\<close>

definition mssql_validate_table_exists :: "string \<Rightarrow> conn \<Rightarrow> (error + bool) \<times> conn" where
  "mssql_validate_table_exists table_name c =
     (case execute
             (''SELECT COUNT(1) FROM INFORMATION_SCHEMA.TABLES WHERE TABLE_NAME = ? AND TABLE_TYPE = ''
                @ quoted ''BASE TABLE'')
             [PStr table_name]
             (query (catalog_table_count table_name)) c of
        (Inl e, c1) \<Rightarrow> (Inl e, c1)
      | (Inr n, c1) \<Rightarrow>
          (let exists = (n > 0)
           in if \<not> exists
              then (Inl (ValueError (''Table '' @ quoted table_name @ '' not found'')), c1)
              else (Inr exists, c1)))"

fun mssql_validate_columns :: "string \<Rightarrow> string list \<Rightarrow> conn \<Rightarrow> (error + string list) \<times> conn" where
  "mssql_validate_columns table_name [] c = (Inr [], c)"
| "mssql_validate_columns table_name (col # cols) c =
     (case execute
             ''SELECT COUNT(1) FROM INFORMATION_SCHEMA.COLUMNS WHERE TABLE_NAME = ? AND COLUMN_NAME = ?''
             [PStr table_name, PStr col]
             (query (catalog_column_count table_name col)) c of
        (Inl e, c1) \<Rightarrow> (Inl e, c1)
      | (Inr n, c1) \<Rightarrow>
          (case mssql_validate_columns table_name cols c1 of
             (Inl e, c2) \<Rightarrow> (Inl e, c2)
           | (Inr valid_columns, c2) \<Rightarrow>
               (Inr (if n > 0 then col # valid_columns else valid_columns), c2)))"

definition mssql_primary_key_body :: "string \<Rightarrow> conn \<Rightarrow> (error + string) \<times> conn" where
  "mssql_primary_key_body table_name c =
     (case execute
             ''SELECT column_name FROM INFORMATION_SCHEMA.KEY_COLUMN_USAGE WHERE OBJECTPROPERTY(OBJECT_ID(constraint_name), 'IsPrimaryKey') = 1 AND table_name = %s''
             [PStr table_name]
             (query (catalog_primary_key table_name)) c of
        (Inl e, c1) \<Rightarrow> (Inl e, c1)
      | (Inr (Some k), c1) \<Rightarrow> (Inr k, c1)
      | (Inr None, c1) \<Rightarrow>
          (case execute
                  ''SELECT COLUMN_NAME FROM INFORMATION_SCHEMA.COLUMNS WHERE TABLE_NAME = %s ORDER BY ORDINAL_POSITION''
                  [PStr table_name]
                  (query (catalog_first_column table_name)) c1 of
             (Inl e, c2) \<Rightarrow> (Inl e, c2)
           | (Inr (Some k), c2) \<Rightarrow> (Inr k, c2)
           | (Inr None, c2) \<Rightarrow> (Inr ''ID'', c2)))"

definition mssql_get_primary_key_or_first_column :: "string \<Rightarrow> conn \<Rightarrow> string \<times> conn" where
  "mssql_get_primary_key_or_first_column table_name c =
     (case mssql_primary_key_body table_name c of
        (Inl e, c') \<Rightarrow> (''ID'', c')
      | (Inr k, c') \<Rightarrow> (k, c'))"

definition mssql_record_count_body :: "string \<Rightarrow> conn \<Rightarrow> (error + int) \<times> conn" where
  "mssql_record_count_body table_name c =
     (case mssql_validate_table_exists table_name c of
        (Inl e, c1) \<Rightarrow> (Inl e, c1)
      | (Inr _, c1) \<Rightarrow>
          execute (''SELECT COUNT(*) FROM ['' @ table_name @ '']'') []
            (query (count_rows table_name)) c1)"

definition mssql_get_table_record_count ::
  "conn option \<Rightarrow> string \<Rightarrow> (error + int) \<times> conn option" where
  "mssql_get_table_record_count self_conn table_name =
     (case self_conn of
        None \<Rightarrow> (Inr 0, None)
      | Some c \<Rightarrow>
          (case mssql_record_count_body table_name c of
             (Inl e, c') \<Rightarrow> (Inr 0, Some c')
           | (Inr n, c') \<Rightarrow> (Inr n, Some c')))"

text \<open>
  The version probe with its own \<^verbatim>\<open>try\<close>: a fault or an answer that does not parse
  gives major version 0.
\<close>

definition mssql_major_version :: "conn \<Rightarrow> int \<times> conn" where
  "mssql_major_version c =
     (case execute (''SELECT SERVERPROPERTY('' @ quoted ''ProductVersion'' @ '')'') []
             (query (\<lambda>c. Inr (conn_version c))) c of
        (Inl e, c1) \<Rightarrow> (0, c1)
      | (Inr None, c1) \<Rightarrow> (0, c1)
      | (Inr (Some v), c1) \<Rightarrow> (v, c1))"

definition mssql_columns_sql :: "string list \<Rightarrow> string" where
  "mssql_columns_sql valid_columns =
     (if valid_columns \<noteq> [] then join '', '' (map (\<lambda>col. ''['' @ col @ '']'') valid_columns)
      else ''*'')"

text \<open>
  The three pagination methods, each with its \<^verbatim>\<open>try\<close>.  The first two leave
  \<^verbatim>\<open>records\<close> at \<^verbatim>\<open>None\<close> when they fail, the third sets it to the empty list.
\<close>

definition mssql_offset_fetch ::
  "string list \<Rightarrow> string \<Rightarrow> int \<Rightarrow> int \<Rightarrow> conn \<Rightarrow> row list option \<times> conn" where
  "mssql_offset_fetch valid_columns table_name page page_size c =
     (case execute
             (''SELECT '' @ mssql_columns_sql valid_columns @ '' FROM ['' @ table_name
                @ ''] ORDER BY (SELECT NULL) OFFSET '' @ str_int ((page - 1) * page_size)
                @ '' ROWS FETCH NEXT '' @ str_int page_size @ '' ROWS ONLY'')
             []
             (query (select_offset_fetch valid_columns table_name ((page - 1) * page_size)
                       page_size)) c of
        (Inl e, c1) \<Rightarrow> (None, c1)
      | (Inr recs, c1) \<Rightarrow> (Some recs, c1))"

definition mssql_row_number ::
  "string list \<Rightarrow> string \<Rightarrow> int \<Rightarrow> int \<Rightarrow> conn \<Rightarrow> row list option \<times> conn" where
  "mssql_row_number valid_columns table_name page page_size c =
     (case execute
             (''WITH PagedData AS ( SELECT '' @ mssql_columns_sql valid_columns
                @ '', ROW_NUMBER() OVER (ORDER BY (SELECT NULL)) AS RowNum FROM ['' @ table_name
                @ ''] ) SELECT '' @ mssql_columns_sql valid_columns
                @ '' FROM PagedData WHERE RowNum BETWEEN '' @ str_int ((page - 1) * page_size + 1)
                @ '' AND '' @ str_int (page * page_size))
             []
             (query (select_row_number valid_columns table_name ((page - 1) * page_size + 1)
                       (page * page_size))) c of
        (Inl e, c1) \<Rightarrow> (None, c1)
      | (Inr recs, c1) \<Rightarrow> (Some recs, c1))"

definition mssql_top ::
  "string list \<Rightarrow> string \<Rightarrow> int \<Rightarrow> int \<Rightarrow> conn \<Rightarrow> row list \<times> conn" where
  "mssql_top valid_columns table_name page page_size c =
     (if page = 1 then
        (case execute
                (''SELECT TOP '' @ str_int page_size @ '' '' @ mssql_columns_sql valid_columns
                   @ '' FROM ['' @ table_name @ '']'')
                []
                (query (select_top valid_columns table_name page_size)) c of
           (Inl e, c1) \<Rightarrow> ([], c1)
         | (Inr recs, c1) \<Rightarrow> (recs, c1))
      else
        (case mssql_get_primary_key_or_first_column table_name c of
           (order_column, c1) \<Rightarrow>
             (case execute
                     (''SELECT TOP '' @ str_int page_size @ '' '' @ mssql_columns_sql valid_columns
                        @ '' FROM ['' @ table_name @ ''] WHERE ['' @ order_column
                        @ ''] NOT IN ( SELECT TOP '' @ str_int ((page - 1) * page_size) @ '' [''
                        @ order_column @ ''] FROM ['' @ table_name @ ''] ORDER BY ['' @ order_column
                        @ ''] ) ORDER BY ['' @ order_column @ '']'')
                     []
                     (query (select_top_not_in valid_columns table_name order_column page_size
                               ((page - 1) * page_size))) c1 of
                (Inl e, c2) \<Rightarrow> ([], c2)
              | (Inr recs, c2) \<Rightarrow> (recs, c2))))"

definition mssql_paginated_body ::
  "string \<Rightarrow> int \<Rightarrow> int \<Rightarrow> string list option \<Rightarrow> conn \<Rightarrow> (error + page_result) \<times> conn" where
  "mssql_paginated_body table_name page page_size cols c =
     (case mssql_validate_table_exists table_name c of
        (Inl e, c1) \<Rightarrow> (Inl e, c1)
      | (Inr _, c1) \<Rightarrow>
          (case execute (''SELECT COUNT(*) FROM ['' @ table_name @ '']'') []
                  (query (count_rows table_name)) c1 of
             (Inl e, c2) \<Rightarrow> (Inl e, c2)
           | (Inr cnt, c2) \<Rightarrow>
               (case py_ceil_div cnt page_size of
                  Inl e \<Rightarrow> (Inl e, c2)
                | Inr pages \<Rightarrow>
                    (case mssql_major_version c2 of
                       (major_version, c3) \<Rightarrow>
                         (case (if columns_given cols
                                then mssql_validate_columns table_name (the cols) c3
                                else (Inr [], c3)) of
                            (Inl e, c4) \<Rightarrow> (Inl e, c4)
                          | (Inr valid_columns, c4) \<Rightarrow>
                              (case (if major_version \<ge> 11
                                     then mssql_offset_fetch valid_columns table_name page
                                            page_size c4
                                     else (None, c4)) of
                                 (Some recs, c5) \<Rightarrow>
                                   (Inr \<lparr>records = recs, total_count = cnt,
                                         total_pages = pages\<rparr>, c5)
                               | (None, c5) \<Rightarrow>
                                   (case mssql_row_number valid_columns table_name page
                                           page_size c5 of
                                      (Some recs, c6) \<Rightarrow>
                                        (Inr \<lparr>records = recs, total_count = cnt,
                                              total_pages = pages\<rparr>, c6)
                                    | (None, c6) \<Rightarrow>
                                        (case mssql_top valid_columns table_name page
                                                page_size c6 of
                                           (recs, c7) \<Rightarrow>
                                             (Inr \<lparr>records = recs, total_count = cnt,
                                                   total_pages = pages\<rparr>, c7)))))))))"

definition mssql_get_paginated_records ::
  "conn option \<Rightarrow> string \<Rightarrow> int \<Rightarrow> int \<Rightarrow> string list option
     \<Rightarrow> (error + page_result) \<times> conn option" where
  "mssql_get_paginated_records self_conn table_name page page_size cols =
     (case self_conn of
        None \<Rightarrow> (Inr empty_page, None)
      | Some c \<Rightarrow>
          (case mssql_paginated_body table_name page page_size cols c of
             (Inl e, c') \<Rightarrow> (Inr empty_page, Some c')
           | (Inr res, c') \<Rightarrow> (Inr res, Some c')))"

text \<open>\<^verbatim>\<open>update_record\<close>: the \<^verbatim>\<open>except\<close> clause rolls back and raises again.\<close>

definition mssql_update_body ::
  "string \<Rightarrow> int \<Rightarrow> string \<Rightarrow> int option \<Rightarrow> conn \<Rightarrow> (error + bool) \<times> conn" where
  "mssql_update_body table_name rid column_name new_value c =
     (case mssql_validate_table_exists table_name c of
        (Inl e, c1) \<Rightarrow> (Inl e, c1)
      | (Inr _, c1) \<Rightarrow>
          (case mssql_validate_columns table_name [column_name] c1 of
             (Inl e, c2) \<Rightarrow> (Inl e, c2)
           | (Inr valid_columns, c2) \<Rightarrow>
               if valid_columns = [] then
                 (Inl (ValueError (''Column '' @ quoted column_name @ '' not found in table ''
                                     @ quoted table_name)), c2)
               else
                 (case mssql_get_primary_key_or_first_column table_name c2 of
                    (primary_key, c3) \<Rightarrow>
                      (case execute
                              (''UPDATE ['' @ table_name @ ''] SET ['' @ column_name
                                 @ ''] = ? WHERE ['' @ primary_key @ ''] = ?'')
                              [PVal new_value, PVal (Some rid)]
                              (sql_update table_name column_name new_value primary_key rid) c3 of
                         (Inl e, c4) \<Rightarrow> (Inl e, c4)
                       | (Inr rows_affected, c4) \<Rightarrow>
                           if rows_affected = 0 then (Inr False, c4) else (Inr True, c4)))))"

definition mssql_update_record ::
  "conn option \<Rightarrow> string \<Rightarrow> int \<Rightarrow> string \<Rightarrow> int option \<Rightarrow> (error + bool) \<times> conn option" where
  "mssql_update_record self_conn table_name rid column_name new_value =
     (case self_conn of
        None \<Rightarrow> (Inr False, None)
      | Some c \<Rightarrow>
          (case mssql_update_body table_name rid column_name new_value c of
             (Inl e, c') \<Rightarrow> (Inl e, Some c')
           | (Inr ok, c') \<Rightarrow> (Inr ok, Some c')))"

subsection \<open>MongoDB adapter (mongoDbConnector.py)\<close>

text \<open>
  \<^verbatim>\<open>self.db\<close>: the collections with their documents in the order \<^verbatim>\<open>find\<close> returns
  them, and a schedule of faults for the driver calls.  A document maps field names to
  values as a row does; its identifier is the field \<^verbatim>\<open>_id\<close>.  Identifiers are taken
  as they are after the conversion to and from \<^verbatim>\<open>ObjectId\<close>.
\<close>

record mongo =
  mongo_collections :: "(string \<times> row list) list"
  mongo_faults :: "bool list"

definition mongo_call :: "(mongo \<Rightarrow> (error + 'a) \<times> (string \<times> row list) list) \<Rightarrow> mongo
     \<Rightarrow> (error + 'a) \<times> mongo" where
  "mongo_call sem d =
     (let d1 = d\<lparr>mongo_faults := tl (mongo_faults d)\<rparr>
      in if next_fault (mongo_faults d) then (Inl BackendError, d1)
         else (fst (sem d), d1\<lparr>mongo_collections := snd (sem d)\<rparr>))"

definition mongo_read :: "(mongo \<Rightarrow> error + 'a) \<Rightarrow> mongo \<Rightarrow> (error + 'a) \<times> (string \<times> row list) list" where
  "mongo_read f d = (f d, mongo_collections d)"

text \<open>A collection that was never written reads as empty.\<close>

definition documents :: "mongo \<Rightarrow> string \<Rightarrow> row list" where
  "documents d table_name =
     (case map_of (mongo_collections d) table_name of None \<Rightarrow> [] | Some docs \<Rightarrow> docs)"

definition mongo_validate_table_exists :: "string \<Rightarrow> mongo \<Rightarrow> (error + bool) \<times> mongo" where
  "mongo_validate_table_exists table_name d =
     (case mongo_call (mongo_read (\<lambda>d. Inr (map fst (mongo_collections d)))) d of
        (Inl e, d1) \<Rightarrow> (Inl e, d1)
      | (Inr collections, d1) \<Rightarrow>
          (let exists = (table_name \<in> set collections)
           in if \<not> exists
              then (Inl (ValueError (''Collection '' @ quoted table_name @ '' not found'')), d1)
              else (Inr exists, d1)))"

text \<open>
  \<^verbatim>\<open>find({}, projection).skip(skip).limit(page_size)\<close>: a negative skip raises, a
  limit of 0 is no limit, a negative limit counts as its absolute value.  A projection
  returns the listed fields a document has.
\<close>

definition mongo_project :: "string list option \<Rightarrow> row \<Rightarrow> row" where
  "mongo_project projection doc =
     (case projection of
        None \<Rightarrow> doc
      | Some names \<Rightarrow> filter (\<lambda>(k, v). k \<in> set names) doc)"

definition mongo_find ::
  "string \<Rightarrow> string list option \<Rightarrow> int \<Rightarrow> int \<Rightarrow> mongo \<Rightarrow> error + row list" where
  "mongo_find table_name projection skip limit d =
     (if skip < 0 then Inl BackendError
      else
        (let rest = drop (nat skip) (documents d table_name)
         in Inr (map (mongo_project projection)
                   (if limit = 0 then rest else take (nat \<bar>limit\<bar>) rest))))"







section \<open>Examples and predicates for the properties\<close>

text \<open>
  A table of three rows whose scan order is not the order of its key, an empty table, a
  connection to a database that holds both, and a collection with the documents of the
  first.
\<close>

definition users_table :: table where
  "users_table =
     \<lparr>tbl_columns = [''id'', ''age''], tbl_primary_key = [''id''], tbl_next_id = 4,
      tbl_rows = [[(''id'', Some 3), (''age'', Some 30)],
                  [(''id'', Some 1), (''age'', Some 10)],
                  [(''id'', Some 2), (''age'', Some 20)]]\<rparr>"

definition archive_table :: table where
  "archive_table =
     \<lparr>tbl_columns = [''id''], tbl_primary_key = [''id''], tbl_next_id = 1, tbl_rows = []\<rparr>"

definition shop :: conn where
  "shop =
     \<lparr>conn_database = ''shop'',
      conn_tables = [(''users'', users_table), (''archive'', archive_table)],
      conn_version = Some 15, conn_faults = [], conn_log = []\<rparr>"

definition shop_docs :: mongo where
  "shop_docs =
     \<lparr>mongo_collections =
        [(''users'', [[(''_id'', Some 3), (''age'', Some 30)],
                      [(''_id'', Some 1), (''age'', Some 10)],
                      [(''_id'', Some 2), (''age'', Some 20)]])],
      mongo_faults = []\<rparr>"

text \<open>
  The column \<^verbatim>\<open>_get_primary_key_or_first_column\<close> finds when no statement fails: the
  first primary-key column, else the first column, else the adapter's default name.
\<close>

definition key_column :: "table \<Rightarrow> string \<Rightarrow> string" where
  "key_column tb default_name =
     (case tbl_primary_key tb of
        k # _ \<Rightarrow> k
      | [] \<Rightarrow> (case tbl_columns tb of k # _ \<Rightarrow> k | [] \<Rightarrow> default_name))"



text \<open>
  The example database with a backend that answers three statements and then faults on
  the next three.
\<close>

definition faulty_shop :: conn where
  "faulty_shop = shop\<lparr>conn_faults := [False, False, False, True, True, True]\<rparr>"

text \<open>
  The rows of page \<open>page\<close> in scan order, and a table whose scan order is strictly
  ascending in a column that holds no \<^verbatim>\<open>NULL\<close>.
\<close>

definition page_rows :: "table \<Rightarrow> string list \<Rightarrow> int \<Rightarrow> int \<Rightarrow> row list" where
  "page_rows tb cols page page_size =
     map (project cols)
       (take (nat page_size) (drop (nat ((page - 1) * page_size)) (tbl_rows tb)))"

definition scan_sorted :: "table \<Rightarrow> string \<Rightarrow> bool" where
  "scan_sorted tb oc =
     (sorted_wrt (<) (map (\<lambda>r. cell r oc) (tbl_rows tb))
      \<and> None \<notin> set (map (\<lambda>r. cell r oc) (tbl_rows tb)))"

text \<open>A database whose only table is stored in the order of its key.\<close>

definition orders_table :: table where
  "orders_table =
     \<lparr>tbl_columns = [''id'', ''qty''], tbl_primary_key = [''id''], tbl_next_id = 4,
      tbl_rows = [[(''id'', Some 1), (''qty'', Some 5)],
                  [(''id'', Some 2), (''qty'', Some 7)],
                  [(''id'', Some 3), (''qty'', Some 9)]]\<rparr>"

definition ledger :: conn where
  "ledger =
     \<lparr>conn_database = ''ledger'', conn_tables = [(''orders'', orders_table)],
      conn_version = Some 15, conn_faults = [], conn_log = []\<rparr>"





section \<open>Properties of the cache layer\<close>

lemma next_fault_Nil [simp]: "next_fault [] = False"
  by (simp add: next_fault_def)

lemma next_fault_Cons [simp]: "next_fault (f # fs) = f"
  by (simp add: next_fault_def)

lemma store_tick [simp]: "store (tick r) = store r"
  by (simp add: tick_def)

lemma faults_tick [simp]: "faults (tick r) = tl (faults r)"
  by (simp add: tick_def)

lemma sort_cong_mset:
  fixes xs ys :: "string list"
  assumes "mset xs = mset ys"
  shows "sort xs = sort ys"
proof (rule properties_for_sort)
  show "mset (sort ys) = mset xs" using assms by simp
  show "sorted (sort ys)" by simp
qed

text \<open>
  C9.  Two column lists that hold the same names in a different order (the same
  multiset of names, so in particular two duplicate-free lists with the same set of
  names) give the same column-set cache key for the same session, table, page and page
  size; storing under one and reading under the other address the same entry.
\<close>

theorem selected_key_order_independent:
  assumes "mset columns1 = mset columns2"
  shows "selected_key py_hash session_id table_name columns1 page page_size
           = selected_key py_hash session_id table_name columns2 page page_size
       \<and> get_cached_selected_columns_records py_hash loads session_id table_name columns1
             page page_size r
           = get_cached_selected_columns_records py_hash loads session_id table_name columns2
               page page_size r
       \<and> cache_selected_columns_records py_hash dumps str_of session_id table_name columns1
             page page_size records_data r
           = cache_selected_columns_records py_hash dumps str_of session_id table_name columns2
               page page_size records_data r"
  using sort_cong_mset [OF assms]
  by (simp add: selected_key_def get_cached_selected_columns_records_def
      cache_selected_columns_records_def)

theorem selected_key_order_independent_witness:
  "mset [''name'', ''id''] = mset [''id'', ''name'']
   \<and> selected_key hash_length ''s1'' ''users'' [''name'', ''id''] 2 50
       = selected_key hash_length ''s1'' ''users'' [''id'', ''name''] 2 50
   \<and> selected_key hash_length ''s1'' ''users'' [''id'', ''name''] 2 50
       = ''s1:table:users:selected:2:page:2:size:50''"
proof -
  have h: "mset [''name'', ''id''] = mset [''id'', ''name'']" by simp
  have k: "selected_key hash_length ''s1'' ''users'' [''id'', ''name''] 2 50
             = ''s1:table:users:selected:2:page:2:size:50''"
    by (simp add: selected_key_def hash_length_def str_int_def)
  show ?thesis
    using h k selected_key_order_independent [OF h, of hash_length "''s1''" "''users''" 2 50]
    by simp
qed




text \<open>
  Why the deletion is stated for \<^verbatim>\<open>JSONDecodeError\<close> only: a payload of 5000 digits
  makes the decoder raise a plain \<^verbatim>\<open>ValueError\<close>, which the inner handler does not
  catch; the outer one returns \<^verbatim>\<open>None\<close> and the key stays.
\<close>

lemma get_cache_other_decoder_error_kept:
  "loads_literal (replicate 5000 (CHR ''1''))
     = Inl (ValueError ''Exceeds the limit (4300 digits) for integer string conversion'')
   \<and> get_cache loads_literal ''k'' \<lparr>store = [(''k'', replicate 5000 (CHR ''1''))], faults = []\<rparr>
       = (Inr JNull, \<lparr>store = [(''k'', replicate 5000 (CHR ''1''))], faults = []\<rparr>)"
proof -
  have n: "replicate 5000 (CHR ''1'') \<noteq> []"
    by (simp add: replicate_empty)
  have l: "loads_literal (replicate 5000 (CHR ''1''))
     = Inl (ValueError ''Exceeds the limit (4300 digits) for integer string conversion'')"
    by (simp add: loads_literal_def)
  show ?thesis
    using n l by (simp add: get_cache_def get_cache_body_def redis_get_def tick_def)
qed

declare glob_match.simps [simp del]
















lemmas handler_eval =
  session_cookie_def get_db_connection_def get_connection_info_def get_cache_def
  get_cache_body_def redis_get_def loads_literal_def invalidate_table_cache_def
  table_patterns_def redis_keys_def redis_delete_def glob_match.simps example_store_def
  tick_def



text \<open>
  Why the names must hold no bracket and no backslash: a bracket in the table name
  turns part of the pattern into a character class, a backslash makes the next
  character a literal, the pattern no longer matches the table's own keys, and the
  invalidation removes nothing.
\<close>

lemma bracket_name_keeps_its_keys:
  "\<not> class_free ''a[b]''
   \<and> \<not> glob_match ''s1:table:a[b]:*'' ''s1:table:a[b]:count''
   \<and> invalidate_table_cache ''s1'' ''a[b]'' \<lparr>store = [(''s1:table:a[b]:count'', ''3'')], faults = []\<rparr>
       = (Inr 0, \<lparr>store = [(''s1:table:a[b]:count'', ''3'')], faults = []\<rparr>)"
  by (simp add: class_free_def invalidate_table_cache_def table_patterns_def redis_keys_def
      redis_delete_def glob_match.simps tick_def)

lemma backslash_name_keeps_its_keys:
  "\<not> class_free (''a'' @ [CHR 0x5C] @ ''b'')
   \<and> invalidate_table_cache ''s1'' (''a'' @ [CHR 0x5C] @ ''b'')
         \<lparr>store = [(''s1:table:a'' @ [CHR 0x5C] @ ''b:count'', ''3'')], faults = []\<rparr>
       = (Inr 0, \<lparr>store = [(''s1:table:a'' @ [CHR 0x5C] @ ''b:count'', ''3'')], faults = []\<rparr>)"
  by (simp add: class_free_def invalidate_table_cache_def table_patterns_def redis_keys_def
      redis_delete_def glob_match.simps tick_def)

text \<open>
  Why a bulk delete counts only with a positive number of deleted records: when the
  adapter deletes nothing the handler still reports success, and it does not touch the
  cache.
\<close>

lemma bulk_delete_of_nothing_keeps_cache:
  "bulk_delete_records loads_literal adapter_deletes_none (Some ''s1'') ''users'' (Inr [99])
       \<lparr>store = example_store, faults = []\<rparr>
     = (Inr \<lparr>status_code = 200, success = True, new_record_id = None, deleted_count = Some 0\<rparr>,
        \<lparr>store = example_store, faults = []\<rparr>)"
  by (simp add: bulk_delete_records_def adapter_deletes_none_def handler_eval)

lemma invalidate_table_cache_total:
  "\<exists>n. fst (invalidate_table_cache session_id table_name r) = Inr n"
  by (simp add: invalidate_table_cache_def split: prod.splits sum.splits)

lemma get_cache_total: "\<exists>j. fst (get_cache loads key r) = Inr j"
  by (simp add: get_cache_def split: prod.splits sum.splits)

lemma get_cache_fault: "next_fault (faults r) \<Longrightarrow> get_cache loads key r = (Inr JNull, tick r)"
  by (simp add: get_cache_def get_cache_body_def redis_get_def)

lemma get_db_connection_fault:
  "next_fault (faults r)
   \<Longrightarrow> get_db_connection loads session_id use r = (Inl (HTTPException 401), tick r)"
  by (simp add: get_db_connection_def get_connection_info_def get_cache_fault)

lemma set_cache_total: "\<exists>b. fst (set_cache dumps str_of key val expire r) = Inr b"
proof (cases "redis_setex key expire (if is_dict_or_list val then dumps val else str_of val) r")
  case (Pair a r')
  then show ?thesis by (cases a) (auto simp: set_cache_def)
qed

text \<open>
  C5 (amended).  A fault of the cache client never propagates as such.
  \<^verbatim>\<open>get_cache\<close> always returns and turns a fault into a miss (\<^verbatim>\<open>None\<close>).  In
  \<^verbatim>\<open>get_table_count\<close> a miss on the cached count falls through to the adapter, whose
  count the handler returns; a miss on the session's connection entry, which is read
  through \<^verbatim>\<open>get_cache\<close> too, is answered as an unknown session, with the 401 of
  \<^verbatim>\<open>get_db_connection\<close> by \<^verbatim>\<open>get_table_count\<close> and with a failure response of
  status 500 by the create, update and single-delete handlers.  On the write path a fault
  while invalidating is not propagated either: \<^verbatim>\<open>invalidate_table_cache\<close> always
  returns, with 0 when the client faults, and a write handler whose adapter call
  succeeded reports success whatever the client does during the invalidation.
\<close>

theorem cache_faults_swallowed:
  "(\<exists>j. fst (get_cache loads key r) = Inr j)
   \<and> (next_fault (faults r) \<longrightarrow> get_cache loads key r = (Inr JNull, tick r))
   \<and> (session_id \<noteq> [] \<and> next_fault (faults r)
        \<and> get_db_connection loads session_id db_get_table_record_count (tick r) = (Inr n, rc)
        \<longrightarrow> fst (get_table_count loads dumps str_of db_get_table_record_count (Some session_id)
                   table_name r)
              = Inr \<lparr>count_table = table_name, count_value = JNum n\<rparr>)
   \<and> (session_id \<noteq> [] \<and> next_fault (faults r) \<and> next_fault (tl (faults r))
        \<longrightarrow> fst (get_table_count loads dumps str_of db_get_table_record_count (Some session_id)
                   table_name r)
              = Inl (HTTPException 401))
   \<and> (\<exists>k. fst (invalidate_table_cache session_id table_name r) = Inr k)
   \<and> (next_fault (faults r)
        \<longrightarrow> invalidate_table_cache session_id table_name r = (Inr 0, tick r))
   \<and> (session_id \<noteq> [] \<and> truthy_id rid
        \<and> get_db_connection loads session_id db_create_record r = (Inr rid, rc)
        \<longrightarrow> fst (create_table_record loads db_create_record (Some session_id) table_name r)
              = Inr \<lparr>status_code = 200, success = True, new_record_id = Some (str_id rid),
                     deleted_count = None\<rparr>)
   \<and> (session_id \<noteq> []
        \<and> get_db_connection loads session_id db_update_record r = (Inr True, rc)
        \<longrightarrow> fst (update_table_record loads db_update_record (Some session_id) table_name r)
              = Inr \<lparr>status_code = 200, success = True, new_record_id = None,
                     deleted_count = None\<rparr>)
   \<and> (session_id \<noteq> []
        \<and> get_db_connection loads session_id db_delete_record r = (Inr True, rc)
        \<longrightarrow> fst (delete_single_record loads db_delete_record (Some session_id) table_name r)
              = Inr \<lparr>status_code = 200, success = True, new_record_id = None,
                     deleted_count = Some 1\<rparr>)
   \<and> (session_id \<noteq> [] \<and> next_fault (faults r)
        \<longrightarrow> fst (create_table_record loads db_create_record (Some session_id) table_name r)
              = Inr \<lparr>status_code = 500, success = False, new_record_id = None,
                     deleted_count = None\<rparr>
          \<and> fst (update_table_record loads db_update_record (Some session_id) table_name r)
              = Inr \<lparr>status_code = 500, success = False, new_record_id = None,
                     deleted_count = None\<rparr>
          \<and> fst (delete_single_record loads db_delete_record (Some session_id) table_name r)
              = Inr \<lparr>status_code = 500, success = False, new_record_id = None,
                     deleted_count = None\<rparr>)"
proof (intro conjI impI)
  show "\<exists>j. fst (get_cache loads key r) = Inr j" by (rule get_cache_total)
  show "\<exists>k. fst (invalidate_table_cache session_id table_name r) = Inr k"
    by (rule invalidate_table_cache_total)
next
  assume "next_fault (faults r)"
  then show "get_cache loads key r = (Inr JNull, tick r)"
    by (rule get_cache_fault)
next
  assume a: "session_id \<noteq> [] \<and> next_fault (faults r)
        \<and> get_db_connection loads session_id db_get_table_record_count (tick r) = (Inr n, rc)"
  obtain b r3 where "cache_table_count dumps str_of session_id table_name n rc = (Inr b, r3)"
    using set_cache_total [of dumps str_of "session_id @ '':table:'' @ table_name @ '':count''"
        "JNum n" 1800 rc]
    unfolding cache_table_count_def
    by (cases "set_cache dumps str_of (session_id @ '':table:'' @ table_name @ '':count'')
                 (JNum n) 1800 rc") auto
  with a show "fst (get_table_count loads dumps str_of db_get_table_record_count
                      (Some session_id) table_name r)
              = Inr \<lparr>count_table = table_name, count_value = JNum n\<rparr>"
    by (simp add: get_table_count_def session_cookie_def get_cached_table_count_def
        get_cache_fault)
next
  assume a: "session_id \<noteq> [] \<and> next_fault (faults r) \<and> next_fault (tl (faults r))"
  then have "next_fault (faults (tick r))" by simp
  then have "get_db_connection loads session_id db_get_table_record_count (tick r)
               = (Inl (HTTPException 401), tick (tick r))"
    by (rule get_db_connection_fault)
  with a show "fst (get_table_count loads dumps str_of db_get_table_record_count
                      (Some session_id) table_name r)
              = Inl (HTTPException 401)"
    by (simp add: get_table_count_def session_cookie_def get_cached_table_count_def
        get_cache_fault)
next
  assume "next_fault (faults r)"
  then show "invalidate_table_cache session_id table_name r = (Inr 0, tick r)"
    by (simp add: invalidate_table_cache_def table_patterns_def redis_keys_def)
next
  assume a: "session_id \<noteq> [] \<and> truthy_id rid
        \<and> get_db_connection loads session_id db_create_record r = (Inr rid, rc)"
  obtain k r2 where "invalidate_table_cache session_id table_name rc = (Inr k, r2)"
    using invalidate_table_cache_total [of session_id table_name rc]
    by (cases "invalidate_table_cache session_id table_name rc") auto
  with a show "fst (create_table_record loads db_create_record (Some session_id) table_name r)
              = Inr \<lparr>status_code = 200, success = True, new_record_id = Some (str_id rid),
                     deleted_count = None\<rparr>"
    by (simp add: create_table_record_def session_cookie_def)
next
  assume a: "session_id \<noteq> []
        \<and> get_db_connection loads session_id db_update_record r = (Inr True, rc)"
  obtain k r2 where "invalidate_table_cache session_id table_name rc = (Inr k, r2)"
    using invalidate_table_cache_total [of session_id table_name rc]
    by (cases "invalidate_table_cache session_id table_name rc") auto
  with a show "fst (update_table_record loads db_update_record (Some session_id) table_name r)
              = Inr \<lparr>status_code = 200, success = True, new_record_id = None,
                     deleted_count = None\<rparr>"
    by (simp add: update_table_record_def session_cookie_def)
next
  assume a: "session_id \<noteq> []
        \<and> get_db_connection loads session_id db_delete_record r = (Inr True, rc)"
  obtain k r2 where "invalidate_table_cache session_id table_name rc = (Inr k, r2)"
    using invalidate_table_cache_total [of session_id table_name rc]
    by (cases "invalidate_table_cache session_id table_name rc") auto
  with a show "fst (delete_single_record loads db_delete_record (Some session_id) table_name r)
              = Inr \<lparr>status_code = 200, success = True, new_record_id = None,
                     deleted_count = Some 1\<rparr>"
    by (simp add: delete_single_record_def session_cookie_def)
next
  assume a: "session_id \<noteq> [] \<and> next_fault (faults r)"
  then show "fst (create_table_record loads db_create_record (Some session_id) table_name r)
              = Inr \<lparr>status_code = 500, success = False, new_record_id = None,
                     deleted_count = None\<rparr>"
    by (simp add: create_table_record_def session_cookie_def get_db_connection_fault)
next
  assume a: "session_id \<noteq> [] \<and> next_fault (faults r)"
  then show "fst (update_table_record loads db_update_record (Some session_id) table_name r)
              = Inr \<lparr>status_code = 500, success = False, new_record_id = None,
                     deleted_count = None\<rparr>"
    by (simp add: update_table_record_def session_cookie_def get_db_connection_fault)
next
  assume a: "session_id \<noteq> [] \<and> next_fault (faults r)"
  then show "fst (delete_single_record loads db_delete_record (Some session_id) table_name r)
              = Inr \<lparr>status_code = 500, success = False, new_record_id = None,
                     deleted_count = None\<rparr>"
    by (simp add: delete_single_record_def session_cookie_def get_db_connection_fault)
qed

theorem cache_faults_swallowed_witness:
  "next_fault (faults \<lparr>store = example_store, faults = [True]\<rparr>)
   \<and> next_fault (tl (faults \<lparr>store = example_store, faults = [True, True]\<rparr>))
   \<and> get_cache loads_literal ''s1:table:users:count'' \<lparr>store = example_store, faults = [True]\<rparr>
       = (Inr JNull, \<lparr>store = example_store, faults = []\<rparr>)
   \<and> get_db_connection loads_literal ''s1'' adapter_counts_three
         \<lparr>store = example_store, faults = []\<rparr>
       = (Inr 3, \<lparr>store = example_store, faults = []\<rparr>)
   \<and> fst (get_table_count loads_literal dumps_number dumps_number adapter_counts_three
             (Some ''s1'') ''users'' \<lparr>store = example_store, faults = [True]\<rparr>)
       = Inr \<lparr>count_table = ''users'', count_value = JNum 3\<rparr>
   \<and> fst (get_table_count loads_literal dumps_number dumps_number adapter_counts_three
             (Some ''s1'') ''users'' \<lparr>store = example_store, faults = [True, True]\<rparr>)
       = Inl (HTTPException 401)
   \<and> invalidate_table_cache ''s1'' ''users'' \<lparr>store = example_store, faults = [True]\<rparr>
       = (Inr 0, \<lparr>store = example_store, faults = []\<rparr>)
   \<and> ''s1'' \<noteq> [] \<and> truthy_id (IntId 7)
   \<and> get_db_connection loads_literal ''s1'' adapter_returns_id
         \<lparr>store = example_store, faults = [False, True]\<rparr>
       = (Inr (IntId 7), \<lparr>store = example_store, faults = [True]\<rparr>)
   \<and> get_db_connection loads_literal ''s1'' adapter_reports_true
         \<lparr>store = example_store, faults = [False, True]\<rparr>
       = (Inr True, \<lparr>store = example_store, faults = [True]\<rparr>)
   \<and> fst (create_table_record loads_literal adapter_returns_id (Some ''s1'') ''users''
             \<lparr>store = example_store, faults = [False, True]\<rparr>)
       = Inr \<lparr>status_code = 200, success = True, new_record_id = Some ''7'',
              deleted_count = None\<rparr>
   \<and> fst (update_table_record loads_literal adapter_reports_true (Some ''s1'') ''users''
             \<lparr>store = example_store, faults = [False, True]\<rparr>)
       = Inr \<lparr>status_code = 200, success = True, new_record_id = None, deleted_count = None\<rparr>
   \<and> fst (delete_single_record loads_literal adapter_reports_true (Some ''s1'') ''users''
             \<lparr>store = example_store, faults = [False, True]\<rparr>)
       = Inr \<lparr>status_code = 200, success = True, new_record_id = None,
              deleted_count = Some 1\<rparr>
   \<and> fst (create_table_record loads_literal adapter_returns_id (Some ''s1'') ''users''
             \<lparr>store = example_store, faults = [True]\<rparr>)
       = Inr \<lparr>status_code = 500, success = False, new_record_id = None,
              deleted_count = None\<rparr>
   \<and> fst (update_table_record loads_literal adapter_reports_true (Some ''s1'') ''users''
             \<lparr>store = example_store, faults = [True]\<rparr>)
       = Inr \<lparr>status_code = 500, success = False, new_record_id = None,
              deleted_count = None\<rparr>
   \<and> fst (delete_single_record loads_literal adapter_reports_true (Some ''s1'') ''users''
             \<lparr>store = example_store, faults = [True]\<rparr>)
       = Inr \<lparr>status_code = 500, success = False, new_record_id = None,
              deleted_count = None\<rparr>"
proof -
  let ?e = "\<lparr>store = example_store, faults = []\<rparr>"
  let ?f = "\<lparr>store = example_store, faults = [True]\<rparr>"
  let ?ff = "\<lparr>store = example_store, faults = [True, True]\<rparr>"
  let ?g = "\<lparr>store = example_store, faults = [False, True]\<rparr>"
  have nf: "next_fault (faults ?f)" and nff: "next_fault (faults ?ff)"
    and nft: "next_fault (tl (faults ?ff))" by simp_all
  have tk: "tick ?f = ?e" by (simp add: tick_def)
  have s: "''s1'' \<noteq> []" and ti: "truthy_id (IntId 7)" by simp_all
  have gn: "get_db_connection loads_literal ''s1'' adapter_counts_three (tick ?f) = (Inr 3, ?e)"
    by (simp add: adapter_counts_three_def get_db_connection_def get_connection_info_def
        get_cache_def get_cache_body_def redis_get_def loads_literal_def example_store_def
        tick_def)
  have gc: "get_db_connection loads_literal ''s1'' adapter_returns_id ?g = (Inr (IntId 7), ?f)"
    by (simp add: adapter_returns_id_def get_db_connection_def get_connection_info_def
        get_cache_def get_cache_body_def redis_get_def loads_literal_def example_store_def
        tick_def)
  have gu: "get_db_connection loads_literal ''s1'' adapter_reports_true ?g = (Inr True, ?f)"
    by (simp add: adapter_reports_true_def get_db_connection_def get_connection_info_def
        get_cache_def get_cache_body_def redis_get_def loads_literal_def example_store_def
        tick_def)
  note t = cache_faults_swallowed
  have 1: "get_cache loads_literal ''s1:table:users:count'' ?f = (Inr JNull, tick ?f)"
    using t [where r = ?f and loads = loads_literal and key = "''s1:table:users:count''"] nf
    by blast
  have 2: "invalidate_table_cache ''s1'' ''users'' ?f = (Inr 0, tick ?f)"
    using t [where r = ?f and session_id = "''s1''" and table_name = "''users''"] nf
    by blast
  have 3: "fst (create_table_record loads_literal adapter_returns_id (Some ''s1'') ''users'' ?g)
       = Inr \<lparr>status_code = 200, success = True, new_record_id = Some (str_id (IntId 7)),
              deleted_count = None\<rparr>"
    using t [where r = ?g and loads = loads_literal and session_id = "''s1''"
        and db_create_record = adapter_returns_id and rid = "IntId 7" and rc = ?f
        and table_name = "''users''"] s ti gc
    by blast
  have 4: "fst (update_table_record loads_literal adapter_reports_true (Some ''s1'') ''users'' ?g)
       = Inr \<lparr>status_code = 200, success = True, new_record_id = None, deleted_count = None\<rparr>"
    using t [where r = ?g and loads = loads_literal and session_id = "''s1''"
        and db_update_record = adapter_reports_true and rc = ?f
        and table_name = "''users''"] s gu
    by blast
  have 5: "fst (delete_single_record loads_literal adapter_reports_true (Some ''s1'') ''users'' ?g)
       = Inr \<lparr>status_code = 200, success = True, new_record_id = None,
              deleted_count = Some 1\<rparr>"
    using t [where r = ?g and loads = loads_literal and session_id = "''s1''"
        and db_delete_record = adapter_reports_true and rc = ?f
        and table_name = "''users''"] s gu
    by blast
  have 6: "fst (get_table_count loads_literal dumps_number dumps_number adapter_counts_three
             (Some ''s1'') ''users'' ?f)
       = Inr \<lparr>count_table = ''users'', count_value = JNum 3\<rparr>"
    using t [where r = ?f and loads = loads_literal and session_id = "''s1''"
        and db_get_table_record_count = adapter_counts_three and n = 3 and rc = ?e
        and table_name = "''users''" and dumps = dumps_number and str_of = dumps_number]
      s nf gn
    by blast
  have 7: "fst (get_table_count loads_literal dumps_number dumps_number adapter_counts_three
             (Some ''s1'') ''users'' ?ff)
       = Inl (HTTPException 401)"
    using t [where r = ?ff and loads = loads_literal and session_id = "''s1''"
        and db_get_table_record_count = adapter_counts_three
        and table_name = "''users''" and dumps = dumps_number and str_of = dumps_number]
      s nff nft
    by blast
  have 8: "fst (create_table_record loads_literal adapter_returns_id (Some ''s1'') ''users'' ?f)
       = Inr \<lparr>status_code = 500, success = False, new_record_id = None,
              deleted_count = None\<rparr>"
    using t [where r = ?f and loads = loads_literal and session_id = "''s1''"
        and db_create_record = adapter_returns_id and table_name = "''users''"] s nf
    by blast
  have 9: "fst (update_table_record loads_literal adapter_reports_true (Some ''s1'') ''users'' ?f)
       = Inr \<lparr>status_code = 500, success = False, new_record_id = None,
              deleted_count = None\<rparr>"
    using t [where r = ?f and loads = loads_literal and session_id = "''s1''"
        and db_update_record = adapter_reports_true and table_name = "''users''"] s nf
    by blast
  have 10: "fst (delete_single_record loads_literal adapter_reports_true (Some ''s1'') ''users'' ?f)
       = Inr \<lparr>status_code = 500, success = False, new_record_id = None,
              deleted_count = None\<rparr>"
    using t [where r = ?f and loads = loads_literal and session_id = "''s1''"
        and db_delete_record = adapter_reports_true and table_name = "''users''"] s nf
    by blast
  have sid: "str_id (IntId 7) = ''7''" by (simp add: str_int_def)
  from gn have gn': "get_db_connection loads_literal ''s1'' adapter_counts_three ?e = (Inr 3, ?e)"
    by (simp only: tk)
  show ?thesis
    using nf nft 1 2 3 4 5 6 7 8 9 10 s ti gc gu gn' unfolding tk sid by blast
qed

text \<open>
  C5 as stated fails on the write path: with a client that faults on \<^verbatim>\<open>keys\<close>,
  \<^verbatim>\<open>invalidate_table_cache\<close> returns 0 instead of raising, and the create handler
  answers with success and leaves the store as it was.
\<close>

theorem invalidation_fault_not_propagated:
  "fst (redis_keys ''s1:table:users:*'' \<lparr>store = example_store, faults = [True]\<rparr>)
     = Inl RedisError
   \<and> invalidate_table_cache ''s1'' ''users'' \<lparr>store = example_store, faults = [True]\<rparr>
       = (Inr 0, \<lparr>store = example_store, faults = []\<rparr>)
   \<and> create_table_record loads_literal adapter_returns_id (Some ''s1'') ''users''
         \<lparr>store = example_store, faults = [False, True]\<rparr>
       = (Inr \<lparr>status_code = 200, success = True, new_record_id = Some ''7'',
               deleted_count = None\<rparr>,
          \<lparr>store = example_store, faults = []\<rparr>)"
  by (simp add: create_table_record_def adapter_returns_id_def str_int_def handler_eval)

section \<open>Properties of the adapters\<close>

lemmas float_eval =
  py_ceil_div_def nearest_double_def bit_length.simps round_half_even_def Let_def

lemma pages_3_by_2: "py_ceil_div 3 2 = Inr 2"
  by (simp add: float_eval)

lemma pages_3_by_1: "py_ceil_div 3 1 = Inr 3"
  by (simp add: float_eval)

lemma pages_0_by_2: "py_ceil_div 0 2 = Inr 0"
  by (simp add: float_eval)

lemma pages_by_0: "py_ceil_div n 0 = Inl ZeroDivisionError"
  by (simp add: py_ceil_div_def)


text \<open>
  Values of \<^verbatim>\<open>math.ceil(a / b)\<close> as CPython computes them: quotients that round to a
  neighbouring double, negative quotients, a quotient that underflows to \<^verbatim>\<open>0.0\<close> and
  the overflow threshold.
\<close>

lemma py_ceil_div_examples:
  "py_ceil_div 9007199254740993 2 = Inr 4503599627370496
   \<and> py_ceil_div 9007199254740995 1 = Inr 9007199254740996
   \<and> py_ceil_div 9007199254740993 3 = Inr 3002399751580331
   \<and> py_ceil_div 100000000000000001 10 = Inr 10000000000000000
   \<and> py_ceil_div 5 (- 2) = Inr (- 2)
   \<and> py_ceil_div (- 5) 2 = Inr (- 2)
   \<and> py_ceil_div 1 3 = Inr 1
   \<and> py_ceil_div 11 10 = Inr 2
   \<and> py_ceil_div 1 (2 ^ 1080) = Inr 0
   \<and> py_ceil_div (2 ^ 1024) 1 = Inl OverflowError
   \<and> py_ceil_div (2 ^ 1024 - 2 ^ 970 - 1) 1 = Inr (2 ^ 1024 - 2 ^ 971)"
  by (simp add: float_eval)

lemmas db_eval =
  execute_def query_def with_table_def catalog_table_count_def catalog_column_count_def
  catalog_primary_key_def catalog_first_column_def show_first_column_def count_rows_def
  select_limit_offset_def select_offset_fetch_def select_row_number_def select_top_def
  select_top_not_in_def not_in_def numbered_def project_def cell_def
  pages_3_by_2 pages_3_by_1 pages_0_by_2 pages_by_0
  columns_given_def quoted_def users_table_def archive_table_def shop_def mssql_major_version_def
  mssql_columns_sql_def mysql_columns_sql_def str_int_def Let_def

lemmas mongo_eval =
  mongo_call_def mongo_read_def mongo_find_def mongo_project_def documents_def shop_docs_def
  mongo_validate_table_exists_def



lemma nf_next: "True \<notin> set fs \<Longrightarrow> next_fault fs = False"
  by (cases fs) auto

lemma nf_tl: "True \<notin> set fs \<Longrightarrow> True \<notin> set (tl fs)"
  by (cases fs) auto

lemma mssql_primary_key_no_fault:
  assumes "True \<notin> set (conn_faults c)" "map_of (conn_tables c) table_name = Some tb"
  shows "fst (mssql_get_primary_key_or_first_column table_name c) = key_column tb ''ID''
       \<and> conn_tables (snd (mssql_get_primary_key_or_first_column table_name c)) = conn_tables c
       \<and> True \<notin> set (conn_faults (snd (mssql_get_primary_key_or_first_column table_name c)))"
  using assms
  by (simp add: mssql_get_primary_key_or_first_column_def mssql_primary_key_body_def
      execute_def query_def catalog_primary_key_def catalog_first_column_def key_column_def
      Let_def nf_next nf_tl split: list.splits)











lemma mysql_validate_unknown:
  "map_of (conn_tables c) table_name = None
   \<Longrightarrow> \<exists>e. fst (mysql_validate_table_exists table_name c) = Inl e"
  by (simp add: mysql_validate_table_exists_def execute_def query_def catalog_table_count_def
      Let_def)

lemma mssql_validate_unknown:
  "map_of (conn_tables c) table_name = None
   \<Longrightarrow> \<exists>e. fst (mssql_validate_table_exists table_name c) = Inl e"
  by (simp add: mssql_validate_table_exists_def execute_def query_def catalog_table_count_def
      Let_def)

lemma mysql_validate_unknown_no_fault:
  "map_of (conn_tables c) table_name = None \<Longrightarrow> \<not> next_fault (conn_faults c)
   \<Longrightarrow> fst (mysql_validate_table_exists table_name c)
         = Inl (ValueError (''Table '' @ quoted table_name @ '' not found''))"
  by (simp add: mysql_validate_table_exists_def execute_def query_def catalog_table_count_def
      Let_def)

lemma mssql_validate_unknown_no_fault:
  "map_of (conn_tables c) table_name = None \<Longrightarrow> \<not> next_fault (conn_faults c)
   \<Longrightarrow> fst (mssql_validate_table_exists table_name c)
         = Inl (ValueError (''Table '' @ quoted table_name @ '' not found''))"
  by (simp add: mssql_validate_table_exists_def execute_def query_def catalog_table_count_def
      Let_def)

lemma fst_case_Inl:
  "fst x = Inl e \<Longrightarrow> (case x of (Inl e, c) \<Rightarrow> f e c | (Inr v, c) \<Rightarrow> g v c) = f e (snd x)"
  by (cases x) auto

lemma mysql_count_body_unknown:
  "map_of (conn_tables c) table_name = None
   \<Longrightarrow> \<exists>e. fst (mysql_record_count_body table_name c) = Inl e"
  using mysql_validate_unknown [of c table_name]
  by (auto simp: mysql_record_count_body_def split: prod.splits sum.splits)

lemma mssql_count_body_unknown:
  "map_of (conn_tables c) table_name = None
   \<Longrightarrow> \<exists>e. fst (mssql_record_count_body table_name c) = Inl e"
  using mssql_validate_unknown [of c table_name]
  by (auto simp: mssql_record_count_body_def split: prod.splits sum.splits)

lemma mysql_paginated_body_unknown:
  "map_of (conn_tables c) table_name = None
   \<Longrightarrow> \<exists>e. fst (mysql_paginated_body table_name page page_size cols c) = Inl e"
  using mysql_validate_unknown [of c table_name]
  by (auto simp: mysql_paginated_body_def split: prod.splits sum.splits)

lemma mssql_paginated_body_unknown:
  "map_of (conn_tables c) table_name = None
   \<Longrightarrow> \<exists>e. fst (mssql_paginated_body table_name page page_size cols c) = Inl e"
  using mssql_validate_unknown [of c table_name]
  by (auto simp: mssql_paginated_body_def split: prod.splits sum.splits)
















lemma mysql_count_caught:
  "fst (mysql_record_count_body table_name c) = Inl e
   \<Longrightarrow> fst (mysql_get_table_record_count (Some c) table_name) = Inr 0"
  by (cases "mysql_record_count_body table_name c") (simp add: mysql_get_table_record_count_def)

lemma mssql_count_caught:
  "fst (mssql_record_count_body table_name c) = Inl e
   \<Longrightarrow> fst (mssql_get_table_record_count (Some c) table_name) = Inr 0"
  by (cases "mssql_record_count_body table_name c") (simp add: mssql_get_table_record_count_def)

lemma mysql_paginated_caught:
  "fst (mysql_paginated_body table_name page page_size cols c) = Inl e
   \<Longrightarrow> fst (mysql_get_paginated_records (Some c) table_name page page_size cols) = Inr empty_page"
  by (cases "mysql_paginated_body table_name page page_size cols c")
     (simp add: mysql_get_paginated_records_def)

lemma mssql_paginated_caught:
  "fst (mssql_paginated_body table_name page page_size cols c) = Inl e
   \<Longrightarrow> fst (mssql_get_paginated_records (Some c) table_name page page_size cols) = Inr empty_page"
  by (cases "mssql_paginated_body table_name page page_size cols c")
     (simp add: mssql_get_paginated_records_def)




text \<open>
  A fault in column validation is outside the inner handlers: the outer handler answers
  with the empty page although the rows have been counted.
\<close>

lemma mssql_fault_in_column_validation:
  "fst (mssql_get_paginated_records (Some faulty_shop) ''users'' 1 2 (Some [''id'']))
     = Inr empty_page"
  by (simp add: faulty_shop_def mssql_get_paginated_records_def mssql_paginated_body_def
      mssql_validate_table_exists_def empty_page_def db_eval)



lemma mssql_update_unknown:
  assumes "map_of (conn_tables c) table_name = None" "\<not> next_fault (conn_faults c)"
  shows "fst (mssql_update_record (Some c) table_name rid column_name new_value)
           = Inl (ValueError (''Table '' @ quoted table_name @ '' not found''))"
  using mssql_validate_unknown_no_fault [OF assms]
  by (cases "mssql_validate_table_exists table_name c")
     (simp add: mssql_update_record_def mssql_update_body_def)

lemma mysql_delete_unknown:
  assumes "map_of (conn_tables c) table_name = None"
  shows "fst (mysql_delete_record (Some c) table_name rid) = Inr False"
  using mysql_validate_unknown [OF assms]
  by (cases "mysql_validate_table_exists table_name c")
     (auto simp: mysql_delete_record_def mysql_delete_body_def)

text \<open>
  C4 (amended).  For a table name the backend does not have (and a backend that answers
  the catalog query), \<^verbatim>\<open>_validate_table_exists\<close> raises the not-found
  \<^verbatim>\<open>ValueError\<close> and SQL Server's \<^verbatim>\<open>update_record\<close> passes it on; the record
  count returns 0, pagination returns the empty page and MySQL's \<^verbatim>\<open>delete_record\<close>
  returns \<^verbatim>\<open>False\<close>.
\<close>

theorem unknown_table_results:
  "map_of (conn_tables c) table_name = None \<and> \<not> next_fault (conn_faults c)
   \<longrightarrow> fst (mysql_validate_table_exists table_name c)
         = Inl (ValueError (''Table '' @ quoted table_name @ '' not found''))
     \<and> fst (mssql_validate_table_exists table_name c)
         = Inl (ValueError (''Table '' @ quoted table_name @ '' not found''))
     \<and> fst (mssql_update_record (Some c) table_name rid column_name new_value)
         = Inl (ValueError (''Table '' @ quoted table_name @ '' not found''))
     \<and> fst (mysql_get_table_record_count (Some c) table_name) = Inr 0
     \<and> fst (mssql_get_table_record_count (Some c) table_name) = Inr 0
     \<and> fst (mysql_get_paginated_records (Some c) table_name page page_size cols) = Inr empty_page
     \<and> fst (mssql_get_paginated_records (Some c) table_name page page_size cols) = Inr empty_page
     \<and> fst (mysql_delete_record (Some c) table_name rid) = Inr False"
proof (intro impI, elim conjE, intro conjI)
  assume u: "map_of (conn_tables c) table_name = None" and n: "\<not> next_fault (conn_faults c)"
  show "fst (mysql_validate_table_exists table_name c)
         = Inl (ValueError (''Table '' @ quoted table_name @ '' not found''))"
    by (rule mysql_validate_unknown_no_fault [OF u n])
  show "fst (mssql_validate_table_exists table_name c)
         = Inl (ValueError (''Table '' @ quoted table_name @ '' not found''))"
    by (rule mssql_validate_unknown_no_fault [OF u n])
  show "fst (mssql_update_record (Some c) table_name rid column_name new_value)
         = Inl (ValueError (''Table '' @ quoted table_name @ '' not found''))"
    by (rule mssql_update_unknown [OF u n])
  show "fst (mysql_get_table_record_count (Some c) table_name) = Inr 0"
    using mysql_count_body_unknown [OF u] mysql_count_caught by blast
  show "fst (mssql_get_table_record_count (Some c) table_name) = Inr 0"
    using mssql_count_body_unknown [OF u] mssql_count_caught by blast
  show "fst (mysql_get_paginated_records (Some c) table_name page page_size cols) = Inr empty_page"
    using mysql_paginated_body_unknown [OF u] mysql_paginated_caught by blast
  show "fst (mssql_get_paginated_records (Some c) table_name page page_size cols) = Inr empty_page"
    using mssql_paginated_body_unknown [OF u] mssql_paginated_caught by blast
  show "fst (mysql_delete_record (Some c) table_name rid) = Inr False"
    by (rule mysql_delete_unknown [OF u])
qed

theorem unknown_table_results_witness:
  "map_of (conn_tables shop) ''ghost'' = None \<and> \<not> next_fault (conn_faults shop)
   \<and> fst (mssql_validate_table_exists ''ghost'' shop)
       = Inl (ValueError (''Table '' @ quoted ''ghost'' @ '' not found''))
   \<and> fst (mssql_update_record (Some shop) ''ghost'' 1 ''age'' (Some 5))
       = Inl (ValueError (''Table '' @ quoted ''ghost'' @ '' not found''))
   \<and> fst (mssql_get_paginated_records (Some shop) ''ghost'' 1 2 None) = Inr empty_page
   \<and> fst (mysql_delete_record (Some shop) ''ghost'' 1) = Inr False"
proof -
  have h: "map_of (conn_tables shop) ''ghost'' = None \<and> \<not> next_fault (conn_faults shop)"
    by (simp add: shop_def)
  from unknown_table_results
    [of shop "''ghost''" 1 "''age''" "Some 5" 1 2 None] h
  show ?thesis by simp
qed

text \<open>
  C4 as stated fails: the record count of an unknown table is 0, the value an existing
  empty table gives.
\<close>

theorem unknown_table_count_looks_empty:
  "map_of (conn_tables shop) ''ghost'' = None
   \<and> map_of (conn_tables shop) ''archive'' = Some archive_table
   \<and> tbl_rows archive_table = []
   \<and> fst (mysql_get_table_record_count (Some shop) ''ghost'') = Inr 0
   \<and> fst (mysql_get_table_record_count (Some shop) ''archive'') = Inr 0"
  by (simp add: mysql_get_table_record_count_def mysql_record_count_body_def
      mysql_validate_table_exists_def db_eval)


lemma numbered_snoc:
  "numbered (rs @ [x]) = numbered rs @ [(int (Suc (length rs)), x)]"
proof -
  have e: "[Suc 0 ..< Suc (Suc (length rs))] = [Suc 0 ..< Suc (length rs)] @ [Suc (length rs)]"
    by (rule upt_Suc_append) simp
  have z: "zip (map int [Suc 0 ..< Suc (length rs)] @ [int (Suc (length rs))]) (rs @ [x])
          = zip (map int [Suc 0 ..< Suc (length rs)]) rs @ zip [int (Suc (length rs))] [x]"
    by (rule zip_append) (simp del: upt_Suc)
  show ?thesis
    using z by (simp add: numbered_def e del: upt_Suc)
qed

lemma numbered_window:
  "map snd (filter (\<lambda>(i, r). int a < i \<and> i \<le> int (a + n)) (numbered rs)) = take n (drop a rs)"
proof (induction rs rule: rev_induct)
  case Nil
  show ?case by (simp add: numbered_def)
next
  case (snoc x rs)
  then show ?case
    by (auto simp: numbered_snoc)
qed

lemma numbered_window_project:
  "cols \<noteq> [] \<Longrightarrow>
   map (\<lambda>(i, r). if cols = [] then r @ [(''RowNum'', Some i)] else project cols r)
     (filter (\<lambda>(i, r). int a < i \<and> i \<le> int (a + n)) (numbered rs))
   = map (project cols) (take n (drop a rs))"
proof -
  assume c: "cols \<noteq> []"
  have "(\<lambda>(i, r). if cols = [] then r @ [(''RowNum'', Some i)] else project cols r)
          = project cols \<circ> snd"
    using c by (auto simp: fun_eq_iff)
  then show ?thesis
    using numbered_window [of a n rs] by (simp flip: map_map)
qed

lemma filter_not_in_prefix:
  assumes "distinct (map f xs)"
  shows "filter (\<lambda>x. f x \<notin> set (take m (map f xs))) xs = drop m xs"
proof -
  have d: "distinct (map f (take m xs) @ map f (drop m xs))"
    using assms by (metis append_take_drop_id map_append)
  have a: "filter (\<lambda>x. f x \<notin> set (map f (take m xs))) (take m xs) = []"
    by (auto simp: filter_empty_conv)
  have b: "filter (\<lambda>x. f x \<notin> set (map f (take m xs))) (drop m xs) = drop m xs"
    using d by (auto simp: filter_id_conv)
  have "filter (\<lambda>x. f x \<notin> set (map f (take m xs))) (take m xs @ drop m xs) = drop m xs"
    unfolding filter_append a b by simp
  then show ?thesis by (simp add: take_map)
qed

lemma ordinal_page_sorted:
  assumes "sorted_wrt (<) (map f xs)" "None \<notin> set (map f xs)"
  shows "take n (sort_key f (filter (\<lambda>r. not_in (f r) (take m (sort (map f xs)))) xs))
           = take n (drop m xs)"
proof -
  have s: "sorted (map f xs)" and d: "distinct (map f xs)"
    using assms(1) strict_sorted_iff by auto
  have srt: "sort (map f xs) = map f xs"
    using s by (rule sorted_sort_id)
  have kept: "filter (\<lambda>r. not_in (f r) (take m (map f xs))) xs = drop m xs"
  proof (cases "take m (map f xs) = []")
    case True
    then have "m = 0 \<or> xs = []" by (cases xs) auto
    with True show ?thesis by (auto simp: not_in_def)
  next
    case False
    have nn: "f r \<noteq> None" if "r \<in> set xs" for r
      using assms(2) that by force
    have nt: "None \<notin> set (take m (map f xs))"
      using assms(2) by (meson in_set_takeD)
    have "\<And>r. r \<in> set xs \<Longrightarrow>
        not_in (f r) (take m (map f xs)) = (f r \<notin> set (take m (map f xs)))"
      using False nn nt by (simp add: not_in_def)
    then have "filter (\<lambda>r. not_in (f r) (take m (map f xs))) xs
        = filter (\<lambda>r. f r \<notin> set (take m (map f xs))) xs"
      by (auto intro: filter_cong)
    then show ?thesis using filter_not_in_prefix [OF d] by simp
  qed
  have "sorted (map f (drop m xs))"
    using s by (simp add: drop_map [symmetric] sorted_wrt_drop)
  then have "sort_key f (drop m xs) = drop m xs"
    by (rule sort_key_id_if_sorted)
  with srt kept show ?thesis by simp
qed

lemma offset_nonneg: "(1::int) \<le> page \<Longrightarrow> 1 \<le> page_size \<Longrightarrow> 0 \<le> (page - 1) * page_size"
  by simp

lemma offset_not_neg: "(1::int) \<le> page \<Longrightarrow> 1 \<le> page_size \<Longrightarrow> \<not> (page - 1) * page_size < 0"
  by (simp add: not_less)

lemma mssql_offset_fetch_rows:
  assumes "map_of (conn_tables c) table_name = Some tb" "\<not> next_fault (conn_faults c)"
    "1 \<le> page" "1 \<le> page_size"
  shows "fst (mssql_offset_fetch cols table_name page page_size c)
           = Some (page_rows tb cols page page_size)"
  using assms offset_not_neg [OF assms(3,4)]
  by (simp add: mssql_offset_fetch_def execute_def query_def select_offset_fetch_def
      with_table_def page_rows_def Let_def)

lemma mssql_row_number_rows:
  assumes "map_of (conn_tables c) table_name = Some tb" "\<not> next_fault (conn_faults c)"
    "1 \<le> page" "1 \<le> page_size" "cols \<noteq> []"
  shows "fst (mssql_row_number cols table_name page page_size c)
           = Some (page_rows tb cols page page_size)"
proof -
  define a where "a = nat ((page - 1) * page_size)"
  define n where "n = nat page_size"
  have ia: "int a = (page - 1) * page_size"
    using offset_nonneg [OF assms(3,4)] by (simp add: a_def)
  have ian: "int (a + n) = page * page_size"
    using ia assms(4) by (simp add: n_def algebra_simps)
  have p: "(\<lambda>(i, r :: row). (page - 1) * page_size + 1 \<le> i \<and> i \<le> page * page_size)
             = (\<lambda>(i, r). int a < i \<and> i \<le> int (a + n))"
    unfolding ia ian by (auto simp: fun_eq_iff)
  have "select_row_number cols table_name ((page - 1) * page_size + 1) (page * page_size) c
          = Inr (map (project cols) (take n (drop a (tbl_rows tb))))"
    using assms(1) numbered_window_project [OF assms(5), of a n "tbl_rows tb"]
    unfolding select_row_number_def with_table_def p by simp
  then show ?thesis
    using assms(2)
    by (simp add: mssql_row_number_def execute_def query_def page_rows_def a_def n_def Let_def)
qed

lemma mssql_top_first_page:
  assumes "map_of (conn_tables c) table_name = Some tb" "\<not> next_fault (conn_faults c)"
    "1 \<le> page_size"
  shows "fst (mssql_top cols table_name 1 page_size c) = page_rows tb cols 1 page_size"
  using assms
  by (simp add: mssql_top_def execute_def query_def select_top_def with_table_def page_rows_def
      Let_def)

lemma mssql_top_later_page:
  assumes tb: "map_of (conn_tables c) table_name = Some tb"
    and nf: "True \<notin> set (conn_faults c)"
    and pg: "1 < page" and ps: "1 \<le> page_size"
    and pk: "set (tbl_primary_key tb) \<subseteq> set (tbl_columns tb)" and cols: "tbl_columns tb \<noteq> []"
    and srt: "scan_sorted tb (key_column tb ''ID'')"
  shows "fst (mssql_top valid_columns table_name page page_size c)
           = page_rows tb valid_columns page page_size"
proof -
  let ?oc = "key_column tb ''ID''"
  define c1 where "c1 = snd (mssql_get_primary_key_or_first_column table_name c)"
  have k: "mssql_get_primary_key_or_first_column table_name c = (?oc, c1)"
    and t1: "map_of (conn_tables c1) table_name = Some tb"
    and n1: "True \<notin> set (conn_faults c1)"
    using mssql_primary_key_no_fault [OF nf tb] tb by (simp_all add: c1_def prod_eq_iff)
  have oc: "?oc \<in> set (tbl_columns tb)"
    using pk cols by (auto simp: key_column_def split: list.splits)
  have m: "\<not> (page - 1) * page_size < 0"
    using pg ps by (simp add: not_less)
  have "select_top_not_in valid_columns table_name ?oc page_size ((page - 1) * page_size) c1
          = Inr (page_rows tb valid_columns page page_size)"
    using t1 oc m ps srt
      ordinal_page_sorted [of "\<lambda>r. cell r ?oc" "tbl_rows tb" "nat page_size"
        "nat ((page - 1) * page_size)"]
    by (simp add: select_top_not_in_def with_table_def page_rows_def scan_sorted_def Let_def)
  then show ?thesis
    using k n1 pg
    by (simp add: mssql_top_def execute_def query_def nf_next Let_def)
qed

text \<open>
  Where the three methods return the same rows.  On a fixed table, with a backend that
  does not fault and page and page size of at least 1, the \<^verbatim>\<open>OFFSET/FETCH\<close> method
  returns the rows of the page in scan order; the \<^verbatim>\<open>ROW_NUMBER\<close> method returns the
  same rows when a column list is given; the \<^verbatim>\<open>TOP\<close> fallback returns the same rows
  on page 1, and on later pages when the scan order of the table is strictly ascending in
  its ordering column and that column holds no \<^verbatim>\<open>NULL\<close>.
\<close>

lemma pagination_agrees_in_key_order:
  assumes "map_of (conn_tables c) table_name = Some tb" "True \<notin> set (conn_faults c)"
    "1 \<le> page" "1 \<le> page_size"
  shows "fst (mssql_offset_fetch valid_columns table_name page page_size c)
           = Some (page_rows tb valid_columns page page_size)
       \<and> (valid_columns \<noteq> []
            \<longrightarrow> fst (mssql_row_number valid_columns table_name page page_size c)
                  = fst (mssql_offset_fetch valid_columns table_name page page_size c))
       \<and> (page = 1
            \<or> (set (tbl_primary_key tb) \<subseteq> set (tbl_columns tb) \<and> tbl_columns tb \<noteq> []
                \<and> scan_sorted tb (key_column tb ''ID''))
            \<longrightarrow> Some (fst (mssql_top valid_columns table_name page page_size c))
                  = fst (mssql_offset_fetch valid_columns table_name page page_size c))"
proof -
  have n: "\<not> next_fault (conn_faults c)"
    using assms(2) by (simp add: nf_next)
  note o = mssql_offset_fetch_rows [OF assms(1) n assms(3,4)]
  show ?thesis
  proof (intro conjI impI)
    show "fst (mssql_offset_fetch valid_columns table_name page page_size c)
           = Some (page_rows tb valid_columns page page_size)"
      by (rule o)
  next
    assume "valid_columns \<noteq> []"
    then show "fst (mssql_row_number valid_columns table_name page page_size c)
                  = fst (mssql_offset_fetch valid_columns table_name page page_size c)"
      using mssql_row_number_rows [OF assms(1) n assms(3,4)] o by simp
  next
    assume a: "page = 1
            \<or> (set (tbl_primary_key tb) \<subseteq> set (tbl_columns tb) \<and> tbl_columns tb \<noteq> []
                \<and> scan_sorted tb (key_column tb ''ID''))"
    show "Some (fst (mssql_top valid_columns table_name page page_size c))
                  = fst (mssql_offset_fetch valid_columns table_name page page_size c)"
    proof (cases "page = 1")
      case True
      then show ?thesis
        using mssql_top_first_page [OF assms(1) n assms(4)] o by simp
    next
      case False
      with a assms(3) have "1 < page"
        and "set (tbl_primary_key tb) \<subseteq> set (tbl_columns tb)" "tbl_columns tb \<noteq> []"
        "scan_sorted tb (key_column tb ''ID'')"
        by auto
      then show ?thesis
        using mssql_top_later_page [OF assms(1,2) _ assms(4)] o by simp
    qed
  qed
qed

lemmas db_eval2 = db_eval orders_table_def ledger_def key_column_def scan_sorted_def
  page_rows_def mssql_get_primary_key_or_first_column_def mssql_primary_key_body_def

lemma pagination_agrees_in_key_order_example:
  "map_of (conn_tables ledger) ''orders'' = Some orders_table
   \<and> True \<notin> set (conn_faults ledger) \<and> (1::int) \<le> 2 \<and> (1::int) \<le> 1 \<and> [''id''] \<noteq> []
   \<and> set (tbl_primary_key orders_table) \<subseteq> set (tbl_columns orders_table)
   \<and> tbl_columns orders_table \<noteq> []
   \<and> scan_sorted orders_table (key_column orders_table ''ID'')
   \<and> fst (mssql_offset_fetch [''id''] ''orders'' 2 1 ledger) = Some [[(''id'', Some 2)]]
   \<and> fst (mssql_row_number [''id''] ''orders'' 2 1 ledger) = Some [[(''id'', Some 2)]]
   \<and> fst (mssql_top [''id''] ''orders'' 2 1 ledger) = [[(''id'', Some 2)]]"
proof -
  have h: "map_of (conn_tables ledger) ''orders'' = Some orders_table"
    "True \<notin> set (conn_faults ledger)" "(1::int) \<le> 2" "(1::int) \<le> 1"
    by (simp_all add: ledger_def)
  have g: "[''id''] \<noteq> ([] :: string list)"
    "set (tbl_primary_key orders_table) \<subseteq> set (tbl_columns orders_table)"
    "tbl_columns orders_table \<noteq> []"
    "scan_sorted orders_table (key_column orders_table ''ID'')"
    by (simp_all add: orders_table_def scan_sorted_def key_column_def cell_def)
  have p: "page_rows orders_table [''id''] 2 1 = [[(''id'', Some 2)]]"
    by (simp add: page_rows_def orders_table_def project_def cell_def)
  from pagination_agrees_in_key_order [OF h, of "[''id'']"] g p
  show ?thesis using h by auto
qed

text \<open>
  C2 fails in the code.  The first two methods of the fallback chain take the page in
  the order of \<^verbatim>\<open>ORDER BY (SELECT NULL)\<close>, the scan order, while the
  \<^verbatim>\<open>TOP ... NOT IN\<close> fallback orders by the key column.  On a table whose scan order
  is not its key order, page 2 of size 1 is the row with id 1 for \<^verbatim>\<open>OFFSET/FETCH\<close>
  and \<^verbatim>\<open>ROW_NUMBER\<close> and the row with id 2 for the fallback, so
  \<^verbatim>\<open>get_paginated_records\<close> answers the same request with a different row set when
  the server is older than version 11 and its \<^verbatim>\<open>ROW_NUMBER\<close> statement fails.
\<close>

theorem pagination_methods_disagree:
  "map_of (conn_tables shop) ''users'' = Some users_table
   \<and> map (\<lambda>r. cell r ''id'') (tbl_rows users_table) = [Some 3, Some 1, Some 2]
   \<and> (2::int) * 1 \<le> int (length (tbl_rows users_table))
   \<and> fst (mssql_offset_fetch [''id''] ''users'' 2 1 shop) = Some [[(''id'', Some 1)]]
   \<and> fst (mssql_row_number [''id''] ''users'' 2 1 shop) = Some [[(''id'', Some 1)]]
   \<and> fst (mssql_top [''id''] ''users'' 2 1 shop) = [[(''id'', Some 2)]]
   \<and> set [[(''id'', Some (1::int))]] \<noteq> set [[(''id'', Some 2)]]
   \<and> fst (mssql_get_paginated_records (Some shop) ''users'' 2 1 (Some [''id'']))
       = Inr \<lparr>records = [[(''id'', Some 1)]], total_count = 3, total_pages = 3\<rparr>
   \<and> fst (mssql_get_paginated_records
             (Some (shop\<lparr>conn_version := Some 8,
                         conn_faults := [False, False, False, False, True]\<rparr>))
             ''users'' 2 1 (Some [''id'']))
       = Inr \<lparr>records = [[(''id'', Some 2)]], total_count = 3, total_pages = 3\<rparr>"
proof (intro conjI)
  show "map_of (conn_tables shop) ''users'' = Some users_table"
    by (simp add: shop_def)
  show "map (\<lambda>r. cell r ''id'') (tbl_rows users_table) = [Some 3, Some 1, Some 2]"
    by (simp add: users_table_def cell_def)
  show "(2::int) * 1 \<le> int (length (tbl_rows users_table))"
    by (simp add: users_table_def)
  show "fst (mssql_offset_fetch [''id''] ''users'' 2 1 shop) = Some [[(''id'', Some 1)]]"
    by (simp add: mssql_offset_fetch_def db_eval2)
  show "fst (mssql_row_number [''id''] ''users'' 2 1 shop) = Some [[(''id'', Some 1)]]"
    by (simp add: mssql_row_number_def db_eval2)
  show "fst (mssql_top [''id''] ''users'' 2 1 shop) = [[(''id'', Some 2)]]"
    by (simp add: mssql_top_def db_eval2)
  show "set [[(''id'', Some (1::int))]] \<noteq> set [[(''id'', Some 2)]]"
    by simp
  show "fst (mssql_get_paginated_records (Some shop) ''users'' 2 1 (Some [''id'']))
       = Inr \<lparr>records = [[(''id'', Some 1)]], total_count = 3, total_pages = 3\<rparr>"
    by (simp add: mssql_get_paginated_records_def mssql_paginated_body_def
        mssql_validate_table_exists_def mssql_offset_fetch_def db_eval2)
  show "fst (mssql_get_paginated_records
             (Some (shop\<lparr>conn_version := Some 8,
                         conn_faults := [False, False, False, False, True]\<rparr>))
             ''users'' 2 1 (Some [''id'']))
       = Inr \<lparr>records = [[(''id'', Some 2)]], total_count = 3, total_pages = 3\<rparr>"
    by (simp add: mssql_get_paginated_records_def mssql_paginated_body_def
        mssql_validate_table_exists_def mssql_row_number_def mssql_top_def db_eval2)
qed

text \<open>
  With \<^verbatim>\<open>*\<close> for the column list the \<^verbatim>\<open>ROW_NUMBER\<close> method also returns its
  numbering column, which the other two methods do not.
\<close>

lemma row_number_star_returns_rownum:
  "fst (mssql_offset_fetch [] ''users'' 1 1 shop) = Some [[(''id'', Some 3), (''age'', Some 30)]]
   \<and> fst (mssql_row_number [] ''users'' 1 1 shop)
       = Some [[(''id'', Some 3), (''age'', Some 30), (''RowNum'', Some 1)]]
   \<and> fst (mssql_top [] ''users'' 1 1 shop) = [[(''id'', Some 3), (''age'', Some 30)]]"
  by (simp add: mssql_offset_fetch_def mssql_row_number_def mssql_top_def db_eval2)

text \<open>
  C3 fails in \<^verbatim>\<open>create_record\<close> of the MySQL adapter.  For a table and a column
  the database does not have, the only statement sent is the \<^verbatim>\<open>INSERT\<close> with both
  names interpolated; no catalog query precedes it, and a name that closes the quoting
  reaches the backend as written.  \<^verbatim>\<open>delete_record\<close> of the same adapter asks the
  catalog first and sends nothing else.
\<close>

theorem mysql_create_record_skips_catalog:
  "map_of (conn_tables shop) ''ghost'' = None
   \<and> fst (mysql_create_record (Some shop) ''ghost'' [(''nope'', Some 1)]) = Inr NoId
   \<and> map_option conn_log (snd (mysql_create_record (Some shop) ''ghost'' [(''nope'', Some 1)]))
       = Some [(''INSERT INTO `ghost` (`nope`) VALUES (%s)'', [PVal (Some 1)])]
   \<and> map_option conn_log
         (snd (mysql_create_record (Some shop) ''a`; DROP TABLE `users'' [(''age'', Some 1)]))
       = Some [(''INSERT INTO `a`; DROP TABLE `users` (`age`) VALUES (%s)'', [PVal (Some 1)])]
   \<and> map_option conn_log (snd (mysql_delete_record (Some shop) ''ghost'' 1))
       = Some [(''SELECT COUNT(1) FROM INFORMATION_SCHEMA.TABLES WHERE TABLE_SCHEMA = %s AND TABLE_NAME = %s'',
                [PStr ''shop'', PStr ''ghost''])]"
  by (simp add: mysql_create_record_def mysql_create_body_def sql_insert_def
      mysql_delete_record_def mysql_delete_body_def mysql_validate_table_exists_def db_eval)


end
